theory Spec2Isabelle
  imports Complex_Main "HOL-Library.AList"
begin

section \<open>Values, errors and promise outcomes\<close>

text \<open>
  The worker is JavaScript.  A queue message is an object whose properties hold
  JavaScript values; the few kinds of value the worker touches are enumerated here.
  \<open>JOid\<close> stands for a document-store object id, \<open>JArr\<close> for an array.
\<close>

datatype jsval =
    JUndefined
  | JNull
  | JBool bool
  | JNum int
  | JStr string
  | JOid string
  | JArr "jsval list"

text \<open>An \<open>Error\<close> object, identified by its \<open>message\<close>.\<close>

datatype jserror = JsError (message: string)

text \<open>How a promise settles.\<close>

datatype outcome = Resolved | Rejected jserror

text \<open>JavaScript truthiness, as tested by \<open>!files\<close>.\<close>

fun falsy :: "jsval \<Rightarrow> bool" where
  "falsy JUndefined = True"
| "falsy JNull = True"
| "falsy (JBool b) = (\<not> b)"
| "falsy (JNum n) = (n = 0)"
| "falsy (JStr s) = (s = [])"
| "falsy (JOid s) = False"
| "falsy (JArr xs) = False"

section \<open>The slicing request\<close>

text \<open>
  A duration triple \<open>[elapsed, started, ended]\<close>: index 0 is the elapsed time in
  milliseconds, indices 1 and 2 are the two clock readings (milliseconds since the epoch).
\<close>

record timing =
  elapsed :: int
  started :: int
  ended :: int

definition zero_timing :: timing where
  "zero_timing = \<lparr>elapsed = 0, started = 0, ended = 0\<rparr>"

text \<open>
  The message object after \<open>processMessage\<close> has attached the three duration triples:
  \<open>props\<close> holds every other own property (those of the queue message and those
  that \<open>parseUrl\<close> adds under computed names), in the order in which they were added.
\<close>

record message =
  props :: "(string \<times> jsval) list"
  download_time :: timing
  upload_time :: timing
  slicing_time :: timing

definition time_fields :: "string list" where
  "time_fields = [''download_time'', ''upload_time'', ''slicing_time'']"

text \<open>Reading a property: \<open>undefined\<close> when the object has none of that name.\<close>

definition field :: "message \<Rightarrow> string \<Rightarrow> jsval" where
  "field m k = (case map_of (props m) k of None \<Rightarrow> JUndefined | Some v \<Rightarrow> v)"

text \<open>The \<open>in\<close> operator.\<close>

definition has_field :: "message \<Rightarrow> string \<Rightarrow> bool" where
  "has_field m k = (map_of (props m) k \<noteq> None \<or> k \<in> set time_fields)"

text \<open>\<open>ld.isEmpty\<close> on the message object: no own property at all.\<close>

definition isEmpty_message :: "message \<Rightarrow> bool" where
  "isEmpty_message m = (props m = [] \<and> time_fields = [])"

definition mustHave :: "string list" where
  "mustHave = [''config_file'', ''gcode_file'', ''handle'', ''job_id'', ''job_oid'', ''stl_file'']"

section \<open>The outside world\<close>

text \<open>The \<open>$set\<close> operand of a status write.\<close>

record status_doc =
  status :: int
  jobID :: jsval
  progress :: string
  progressDetail :: string
  downloadTime :: timing
  uploadTime :: timing
  slicingTime :: timing
  gcode_file :: jsval

text \<open>
  A stats document is addressed by an object id made from a number of seconds
  (\<open>HourId\<close>: \<open>ObjectId(hex_seconds + '0000000000000000')\<close>) or by the all-zero
  id (\<open>TimeZeroId\<close>).
\<close>

datatype stats_id = HourId int | TimeZeroId

text \<open>
  Every call that leaves the process is recorded, in the order in which the calls are
  issued: the queue module, the document store, the object store, the slicer command and
  the file system.  What is recorded is the start of a call; a call that the worker starts
  and does not wait for has no second event for its end.  Log output is not recorded.
\<close>

datatype event =
    TrackMessage jsval
  | RunningProcessesInc int
  | RemoveMessage jsval
  | RequeueMessage jsval
  | PrintJobUpdate jsval status_doc
  | DownloadObject jsval jsval jsval jsval
  | UploadFile jsval jsval jsval jsval
  | Exec string
  | Unlink jsval
  | StatsUpdate stats_id "(string \<times> real) list"

text \<open>What a \<open>PrintJob.update\<close> settles with: a result whose \<open>n\<close> is the number of
  matched documents (\<open>None\<close>: no result object), or an error.\<close>

datatype db_outcome = UpdateResult "nat option" | UpdateError jserror

text \<open>
  The answers of the collaborators.  \<open>printjob_update\<close> is asked with the status
  code being written; \<open>url_pieces\<close> is \<open>URL.parse\<close> followed by \<open>path.parse\<close>
  and \<open>path.format\<close>, giving bucket, key and base name; the \<open>clock_\<close> fields are the
  readings of \<open>new Date()\<close> at the six places that read it, \<open>round_hour\<close> the value of
  \<open>roundHour()\<close>.
\<close>

record env =
  object_id :: "jsval \<Rightarrow> jserror + jsval"
  url_pieces :: "jsval \<Rightarrow> jserror + (jsval \<times> string \<times> string)"
  unique :: "string \<Rightarrow> string"
  workDir :: string
  cura_template :: "jsval \<Rightarrow> jsval \<Rightarrow> jsval \<Rightarrow> string"
  printjob_update :: "int \<Rightarrow> db_outcome"
  s3_download :: "jsval \<Rightarrow> jsval \<Rightarrow> jserror option"
  config_rejects_first :: bool
  exec_cmd :: "string \<Rightarrow> jserror option"
  s3_upload :: "jsval \<Rightarrow> jsval \<Rightarrow> jserror option"
  fs_unlink :: "jsval \<Rightarrow> jserror option"
  clock_download_start :: int
  clock_download_end :: int
  clock_slicing_start :: int
  clock_slicing_end :: int
  clock_upload_start :: int
  clock_upload_end :: int
  round_hour :: int

text \<open>The process-wide counters, and the calls issued so far.\<close>

record world =
  trace :: "event list"
  jobsSucceeded :: nat
  jobsFailed :: nat
  jobsFailedSlicing :: nat
  jobsCanceled :: nat
  totalSlicingTime :: real

definition emit :: "event \<Rightarrow> world \<Rightarrow> world" where
  "emit e w = w\<lparr>trace := trace w @ [e]\<rparr>"

section \<open>The helper library\<close>

text \<open>\<open>parseUrl\<close>: adds bucket, key and local file name of one resource to the message.\<close>

definition parseUrl :: "env \<Rightarrow> message \<Rightarrow> string \<Rightarrow> string \<Rightarrow> jserror + message" where
  "parseUrl E m workingDir key =
     (if isEmpty_message m \<or> key = [] then
        Inl (JsError ''parseUrl called with invalid arguments'')
      else if \<not> has_field m (key @ ''_file'') then
        Inl (JsError (''parseUrl called with msg object lacking the property '' @ key @ ''_file''))
      else
        (case url_pieces E (field m (key @ ''_file'')) of
           Inl e \<Rightarrow> Inl e
         | Inr (bucket, pkey, base) \<Rightarrow>
             Inr (m\<lparr>props :=
                    AList.update (key @ ''_local'')
                      (JStr (workingDir @ ''/'' @ unique E key @ ''-'' @ base))
                      (AList.update (key @ ''_key'') (JStr pkey)
                         (AList.update (key @ ''_bucket'') bucket (props m)))\<rparr>)))"

text \<open>One promisified \<open>fs.unlink\<close>.\<close>

definition unlink :: "env \<Rightarrow> jsval \<Rightarrow> world \<Rightarrow> outcome \<times> world" where
  "unlink E f w =
     ((case fs_unlink E f of None \<Rightarrow> Resolved | Some e \<Rightarrow> Rejected e), emit (Unlink f) w)"

text \<open>The loop that starts one \<open>unlink\<close> per file and collects the promises.\<close>

fun unlink_each :: "env \<Rightarrow> jsval list \<Rightarrow> world \<Rightarrow> outcome list \<times> world" where
  "unlink_each E [] w = ([], w)"
| "unlink_each E (f # fs) w =
     (case unlink E f w of (r, w1) \<Rightarrow>
        (case unlink_each E fs w1 of (rs, w2) \<Rightarrow> (r # rs, w2)))"

text \<open>\<open>Promise.all\<close>: rejected as soon as one member is.\<close>

fun promise_all :: "outcome list \<Rightarrow> outcome" where
  "promise_all [] = Resolved"
| "promise_all (Resolved # rs) = promise_all rs"
| "promise_all (Rejected e # rs) = Rejected e"

text \<open>\<open>.then(resolve).catch(resolve)\<close>: whatever happened, resolve.\<close>

fun swallow :: "outcome \<Rightarrow> outcome" where
  "swallow Resolved = Resolved"
| "swallow (Rejected e) = Resolved"

definition removeFiles :: "env \<Rightarrow> jsval \<Rightarrow> jsval \<Rightarrow> world \<Rightarrow> outcome \<times> world" where
  "removeFiles E logid files w =
     (if falsy files then (Resolved, w)
      else
        (case files of
           JStr f \<Rightarrow> unlink E files w
         | JArr fs \<Rightarrow>
             (if length fs = 0 then (Resolved, w)
              else if length fs = 1 then
                (case unlink E (fs ! 0) w of (r, w1) \<Rightarrow> (swallow r, w1))
              else
                (case unlink_each E fs w of (rs, w1) \<Rightarrow> (swallow (promise_all rs), w1)))
         | _ \<Rightarrow> (Rejected (JsError ''removeFiles() called with invalid arguments''), w)))"

text \<open>\<open>objectIdFromTimeStamp()\<close> without argument, and \<open>objectIdTimeZero\<close>.\<close>

definition objectIdFromTimeStamp :: "env \<Rightarrow> stats_id" where
  "objectIdFromTimeStamp E = HourId (round_hour E div 1000)"

definition objectIdTimeZero :: stats_id where
  "objectIdTimeZero = TimeZeroId"

section \<open>Status writes\<close>

definition STATE_WAITING :: int where "STATE_WAITING = 0"
definition STATE_PRE :: int where "STATE_PRE = 1"
definition STATE_RUN :: int where "STATE_RUN = 2"
definition STATE_POST :: int where "STATE_POST = 3"
definition STATE_DONE :: int where "STATE_DONE = 4"
definition STATE_FAIL :: int where "STATE_FAIL = - 1"
definition STATE_ERR :: int where "STATE_ERR = - 2"

text \<open>
  The third argument of \<open>updateState\<close>: left out, an \<open>Error\<close> object, or a plain
  string.  \<open>err_message\<close> is the text that \<open>${err.message}\<close> puts into a template:
  a string has no \<open>message\<close> property, which prints as \<open>undefined\<close>; reading the
  property of an argument that was left out raises a \<open>TypeError\<close> (\<open>None\<close>).
\<close>

datatype errarg = ErrUndefined | ErrObject jserror | ErrString string

fun err_message :: "errarg \<Rightarrow> string option" where
  "err_message ErrUndefined = None"
| "err_message (ErrObject e) = Some (message e)"
| "err_message (ErrString s) = Some ''undefined''"

text \<open>The \<open>switch\<close>: the status code to write, the label and the detail.\<close>

definition state_text :: "int \<Rightarrow> errarg \<Rightarrow> (int \<times> string \<times> string) option" where
  "state_text state err =
     (if state = STATE_WAITING then
        Some (state, ''Waiting to slice'',
              ''Waiting in the slicing queue for the model to be sliced'')
      else if state = STATE_FAIL then
        Some (state, ''Cannot slice'',
              ''The model cannot be sliced; something is incorrect with the STL file'')
      else if state = STATE_ERR then
        (case err_message err of
           None \<Rightarrow> None
         | Some t \<Rightarrow> Some (state, ''Error'', ''Error; '' @ t))
      else if state = STATE_PRE then
        Some (state, ''Preparing slicer'',
              ''Preparing to slice the model; downloading the STL file and slicing options'')
      else if state = STATE_RUN then
        Some (state, ''Slicing'', ''Slicing the model'')
      else if state = STATE_POST then
        Some (state, ''Saving sliced model'',
              ''Slicing completed; uploading the printing instructions for retrieval by the printer'')
      else if state = STATE_DONE then
        Some (state, ''Slicing completed'',
              ''Slicing process finished; model is ready to print'')
      else
        Some (STATE_ERR, ''Unknown'', ''Unknown state''))"

text \<open>The \<open>.catch\<close> of \<open>updateState\<close>: two messages are passed up, the rest is dropped.\<close>

definition update_catch :: "jserror \<Rightarrow> outcome" where
  "update_catch e =
     (if message e = ''CANCELED'' \<or> message e = ''SLICER'' then Rejected e else Resolved)"

text \<open>The update operand \<open>op\<close> built from the message.\<close>

definition status_op :: "message \<Rightarrow> int \<Rightarrow> string \<Rightarrow> string \<Rightarrow> status_doc" where
  "status_op m st txt detail =
     \<lparr>status = st,
      jobID = field m ''job_id'',
      progress = txt,
      progressDetail = detail,
      downloadTime = download_time m,
      uploadTime = upload_time m,
      slicingTime = slicing_time m,
      gcode_file = (if st = STATE_DONE then field m ''gcode_file'' else JStr ''waiting'')\<rparr>"

text \<open>
  \<open>updateState\<close>.  The \<open>TypeError\<close> of the \<open>switch\<close> arises before anything is
  written; it comes back through the same channel as a rejection.
\<close>

definition updateState :: "env \<Rightarrow> message \<Rightarrow> int \<Rightarrow> errarg \<Rightarrow> world \<Rightarrow> outcome \<times> world" where
  "updateState E m state err w =
     (case state_text state err of
        None \<Rightarrow> (Rejected (JsError ''TypeError''), w)
      | Some (st, txt, detail) \<Rightarrow>
          (let w1 = emit (PrintJobUpdate (field m ''job_oid'') (status_op m st txt detail)) w
           in (case printjob_update E st of
                 UpdateResult n \<Rightarrow>
                   (if n = Some 0 then (update_catch (JsError ''CANCELED''), w1)
                    else (Resolved, w1))
               | UpdateError e \<Rightarrow> (update_catch e, w1))))"

section \<open>The stages of a job\<close>

text \<open>\<open>.then(f)\<close> on a promise for the message: \<open>f\<close> runs only after a resolution.\<close>

definition andThen ::
  "outcome \<times> message \<times> world \<Rightarrow> (message \<Rightarrow> world \<Rightarrow> outcome \<times> message \<times> world)
     \<Rightarrow> outcome \<times> message \<times> world" where
  "andThen r f =
     (case r of
        (Resolved, m, w) \<Rightarrow> f m w
      | (Rejected e, m, w) \<Rightarrow> (Rejected e, m, w))"

text \<open>\<open>Promise.join\<close> of the two downloads: the rejection that comes first wins.\<close>

definition promise_join :: "bool \<Rightarrow> jserror option \<Rightarrow> jserror option \<Rightarrow> outcome" where
  "promise_join second_first a b =
     (case (a, b) of
        (None, None) \<Rightarrow> Resolved
      | (Some e, None) \<Rightarrow> Rejected e
      | (None, Some e) \<Rightarrow> Rejected e
      | (Some e1, Some e2) \<Rightarrow> Rejected (if second_first then e2 else e1))"

definition downloadFiles :: "env \<Rightarrow> message \<Rightarrow> world \<Rightarrow> outcome \<times> message \<times> world" where
  "downloadFiles E m w =
     (case updateState E m STATE_PRE ErrUndefined w of
        (Rejected e, w1) \<Rightarrow> (Rejected e, m, w1)
      | (Resolved, w1) \<Rightarrow>
          (let m1 = m\<lparr>download_time := (download_time m)\<lparr>started := clock_download_start E\<rparr>\<rparr>;
               w2 = emit (DownloadObject (field m1 ''job_id'') (field m1 ''stl_bucket'')
                            (field m1 ''stl_key'') (field m1 ''stl_local'')) w1;
               w3 = emit (DownloadObject (field m1 ''job_id'') (field m1 ''config_bucket'')
                            (field m1 ''config_key'') (field m1 ''config_local'')) w2
           in (case promise_join (config_rejects_first E)
                       (s3_download E (field m1 ''stl_bucket'') (field m1 ''stl_key''))
                       (s3_download E (field m1 ''config_bucket'') (field m1 ''config_key'')) of
                 Rejected e \<Rightarrow> (Rejected e, m1, w3)
               | Resolved \<Rightarrow>
                   (let t2 = (download_time m1)\<lparr>ended := clock_download_end E\<rparr>;
                        t0 = t2\<lparr>elapsed := ended t2 - started t2\<rparr>
                    in (Resolved, m1\<lparr>download_time := t0\<rparr>, w3)))))"

definition spawnSlicer :: "env \<Rightarrow> message \<Rightarrow> world \<Rightarrow> outcome \<times> message \<times> world" where
  "spawnSlicer E m w =
     (case updateState E m STATE_RUN ErrUndefined w of
        (Rejected e, w1) \<Rightarrow> (Rejected e, m, w1)
      | (Resolved, w1) \<Rightarrow>
          (let cmd = cura_template E (field m ''config_local'') (field m ''stl_local'')
                       (field m ''gcode_local'');
               m1 = m\<lparr>slicing_time := (slicing_time m)\<lparr>started := clock_slicing_start E\<rparr>\<rparr>;
               w2 = emit (Exec cmd) w1
           in (case exec_cmd E cmd of
                 None \<Rightarrow>
                   (let t2 = (slicing_time m1)\<lparr>ended := clock_slicing_end E\<rparr>;
                        t0 = t2\<lparr>elapsed := ended t2 - started t2\<rparr>
                    in (Resolved, m1\<lparr>slicing_time := t0\<rparr>,
                        w2\<lparr>totalSlicingTime :=
                             totalSlicingTime w2 + real_of_int (elapsed t0) / 1000\<rparr>))
               | Some err \<Rightarrow> (Rejected (JsError ''SLICER''), m1, w2))))"

definition uploadFile :: "env \<Rightarrow> message \<Rightarrow> world \<Rightarrow> outcome \<times> message \<times> world" where
  "uploadFile E m w =
     (case updateState E m STATE_POST ErrUndefined w of
        (Rejected e, w1) \<Rightarrow> (Rejected e, m, w1)
      | (Resolved, w1) \<Rightarrow>
          (let m1 = m\<lparr>upload_time := (upload_time m)\<lparr>started := clock_upload_start E\<rparr>\<rparr>;
               w2 = emit (UploadFile (field m1 ''job_id'') (field m1 ''gcode_local'')
                            (field m1 ''gcode_bucket'') (field m1 ''gcode_key'')) w1
           in (case s3_upload E (field m1 ''gcode_bucket'') (field m1 ''gcode_key'') of
                 Some e \<Rightarrow> (Rejected e, m1, w2)
               | None \<Rightarrow>
                   (let t2 = (upload_time m1)\<lparr>ended := clock_upload_end E\<rparr>;
                        t0 = t2\<lparr>elapsed := ended t2 - started t2\<rparr>
                    in (Resolved, m1\<lparr>upload_time := t0\<rparr>, w2)))))"

text \<open>The three local copies of a job.\<close>

definition local_files :: "message \<Rightarrow> jsval list" where
  "local_files m = [field m ''stl_local'', field m ''config_local'', field m ''gcode_local'']"

definition cleanFiles :: "env \<Rightarrow> message \<Rightarrow> world \<Rightarrow> outcome \<times> message \<times> world" where
  "cleanFiles E m w =
     (case removeFiles E (field m ''job_id'') (JArr (local_files m)) w of
        (r, w1) \<Rightarrow> (r, m, w1))"

definition notifyDone :: "env \<Rightarrow> message \<Rightarrow> world \<Rightarrow> outcome \<times> message \<times> world" where
  "notifyDone E m w =
     (case updateState E m STATE_DONE ErrUndefined w of
        (Rejected e, w1) \<Rightarrow> (Rejected e, m, w1)
      | (Resolved, w1) \<Rightarrow> (Resolved, m, emit (RemoveMessage (field m ''handle'')) w1))"

section \<open>Processing one message\<close>

text \<open>The last \<open>.then\<close> of the chain: both stats documents, then the success counter.\<close>

definition recordSuccess :: "env \<Rightarrow> message \<Rightarrow> world \<Rightarrow> outcome \<times> message \<times> world" where
  "recordSuccess E m w =
     (let incs = [(''slicing_succeeded'', 1),
                  (''slicing_seconds'', real_of_int (elapsed (slicing_time m)) / 1000)];
          w1 = emit (StatsUpdate (objectIdFromTimeStamp E) incs) w;
          w2 = emit (StatsUpdate objectIdTimeZero incs) w1
      in (Resolved, m, w2\<lparr>jobsSucceeded := jobsSucceeded w2 + 1\<rparr>))"

text \<open>
  \<open>downloadFiles(msg).then(spawnSlicer).then(uploadFile).then(notifyDone)
  .then(cleanFiles).then(...)\<close>
\<close>

definition processChain :: "env \<Rightarrow> message \<Rightarrow> world \<Rightarrow> outcome \<times> message \<times> world" where
  "processChain E m w =
     andThen (andThen (andThen (andThen (andThen (downloadFiles E m w)
       (spawnSlicer E)) (uploadFile E)) (notifyDone E)) (cleanFiles E)) (recordSuccess E)"

text \<open>
  The \<open>.catch\<close> at the end of the chain.  The status write and the file removal are
  started and not waited for; the queue call follows at once.
\<close>

definition handleFailure :: "env \<Rightarrow> jserror \<Rightarrow> message \<Rightarrow> world \<Rightarrow> world" where
  "handleFailure E err m w =
     (let (requeue, w1) =
            (if message err = ''CANCELED'' then
               (False,
                emit (StatsUpdate (objectIdFromTimeStamp E) [(''slicing_canceled'', 1)])
                  (w\<lparr>jobsCanceled := jobsCanceled w + 1\<rparr>))
             else if message err = ''SLICER'' then
               (False,
                snd (updateState E m STATE_FAIL ErrUndefined
                  (emit (StatsUpdate (objectIdFromTimeStamp E) [(''slicing_failed'', 1)])
                     (w\<lparr>jobsFailedSlicing := jobsFailedSlicing w + 1\<rparr>))))
             else
               (True,
                snd (updateState E m STATE_ERR (ErrObject err)
                  (w\<lparr>jobsFailed := jobsFailed w + 1\<rparr>))));
          w2 = snd (removeFiles E (field m ''job_id'') (JArr (local_files m)) w1)
      in if requeue then emit (RequeueMessage (field m ''handle'')) w2
         else emit (RemoveMessage (field m ''handle'')) w2)"

text \<open>The chain with its \<open>.catch\<close>: what \<open>processMessage\<close> does with a tracked message.\<close>

definition processJob :: "env \<Rightarrow> message \<Rightarrow> world \<Rightarrow> world" where
  "processJob E m w =
     (case processChain E m w of
        (Resolved, m', w') \<Rightarrow> w'
      | (Rejected err, m', w') \<Rightarrow> handleFailure E err m' w')"

text \<open>\<open>queue.trackMessage(msg); queue.runningProcessesInc(1)\<close>\<close>

definition track :: "message \<Rightarrow> world \<Rightarrow> world" where
  "track m w = emit (RunningProcessesInc 1) (emit (TrackMessage (field m ''handle'')) w)"

text \<open>
  \<open>updateState(msg, STATE_ERR, text).then(queue.removeMessage).catch(...)\<close>: how a
  request that cannot be processed is turned away.
\<close>

definition rejectRequest :: "env \<Rightarrow> message \<Rightarrow> string \<Rightarrow> world \<Rightarrow> world" where
  "rejectRequest E m text w =
     (case updateState E m STATE_ERR (ErrString text) w of
        (Resolved, w1) \<Rightarrow> emit (RemoveMessage (field m ''handle'')) w1
      | (Rejected e, w1) \<Rightarrow> w1)"

text \<open>The three \<open>parseUrl\<close> calls of the \<open>try\<close> block, with the message as they leave it.\<close>

definition parseUrls :: "env \<Rightarrow> message \<Rightarrow> jserror option \<times> message" where
  "parseUrls E m =
     (case parseUrl E m (workDir E) ''stl'' of
        Inl e \<Rightarrow> (Some e, m)
      | Inr m1 \<Rightarrow>
          (case parseUrl E m1 (workDir E) ''config'' of
             Inl e \<Rightarrow> (Some e, m1)
           | Inr m2 \<Rightarrow>
               (case parseUrl E m2 (workDir E) ''gcode'' of
                  Inl e \<Rightarrow> (Some e, m2)
                | Inr m3 \<Rightarrow> (None, m3))))"

text \<open>A call returns its promise, or an exception leaves it.\<close>

datatype completion = Returned | Threw jserror

text \<open>The message as it stands when the loop over \<open>mustHave\<close> begins.\<close>

definition initial_message :: "(string \<times> jsval) list \<Rightarrow> jsval \<Rightarrow> message" where
  "initial_message raw oid =
     \<lparr>props = AList.update ''job_oid'' oid raw,
      download_time = zero_timing,
      upload_time = zero_timing,
      slicing_time = zero_timing\<rparr>"

definition processMessage :: "env \<Rightarrow> (string \<times> jsval) list \<Rightarrow> world \<Rightarrow> completion \<times> world" where
  "processMessage E raw w =
     (case object_id E (case map_of raw ''job_oid'' of None \<Rightarrow> JUndefined | Some v \<Rightarrow> v) of
        Inl e \<Rightarrow> (Threw e, w)
      | Inr oid \<Rightarrow>
          (let m = initial_message raw oid
           in (case find (\<lambda>k. \<not> has_field m k) mustHave of
                 Some k \<Rightarrow>
                   (Returned,
                    rejectRequest E m
                      (''Programming error; slicing request is missing the required parameter '' @ k) w)
               | None \<Rightarrow>
                   (case parseUrls E m of
                      (Some e, m1) \<Rightarrow>
                        (Returned,
                         rejectRequest E m1
                           (''Programming error; invalid data; cannot parse URL; err = '' @ message e) w)
                    | (None, m1) \<Rightarrow> (Returned, processJob E m1 (track m1 w))))))"

section \<open>Reading a trace\<close>

text \<open>The calls issued between two worlds.\<close>

definition new_events :: "world \<Rightarrow> world \<Rightarrow> event list" where
  "new_events w w' = drop (length (trace w)) (trace w')"

text \<open>What kind of call an event is; a status write keeps the status code it writes.\<close>

datatype step =
    QueueTrack | InFlight | QueueRemove | QueueRequeue | StateWrite int
  | Download | Slice | Upload | FileDelete | StatsHour | StatsLifetime

fun step_of :: "event \<Rightarrow> step" where
  "step_of (TrackMessage h) = QueueTrack"
| "step_of (RunningProcessesInc n) = InFlight"
| "step_of (RemoveMessage h) = QueueRemove"
| "step_of (RequeueMessage h) = QueueRequeue"
| "step_of (PrintJobUpdate oid d) = StateWrite (status d)"
| "step_of (DownloadObject a b c d) = Download"
| "step_of (UploadFile a b c d) = Upload"
| "step_of (Exec cmd) = Slice"
| "step_of (Unlink f) = FileDelete"
| "step_of (StatsUpdate k incs) = (case k of HourId s \<Rightarrow> StatsHour | TimeZeroId \<Rightarrow> StatsLifetime)"

definition steps :: "world \<Rightarrow> world \<Rightarrow> step list" where
  "steps w w' = map step_of (new_events w w')"

text \<open>The status codes written, in the order of the writes.\<close>

fun state_writes :: "step list \<Rightarrow> int list" where
  "state_writes [] = []"
| "state_writes (StateWrite st # ss) = st # state_writes ss"
| "state_writes (s # ss) = state_writes ss"

text \<open>
  A queue disposition is the removal or the requeue of the message.
  \<open>cleanup_before_disposition\<close> says of a run that the three file deletions are issued
  before its first queue disposition, and none after.
\<close>

definition is_disposition :: "step \<Rightarrow> bool" where
  "is_disposition s = (s = QueueRemove \<or> s = QueueRequeue)"

definition cleanup_before_disposition :: "step list \<Rightarrow> bool" where
  "cleanup_before_disposition ss =
     (count_list (takeWhile (\<lambda>s. \<not> is_disposition s) ss) FileDelete = 3 \<and>
      FileDelete \<notin> set (dropWhile (\<lambda>s. \<not> is_disposition s) ss))"

text \<open>
  A stats write that increments \<open>slicing_seconds\<close>, and the writes of that kind issued
  between two worlds.
\<close>

fun persists_seconds :: "event \<Rightarrow> bool" where
  "persists_seconds (StatsUpdate k incs) = (''slicing_seconds'' \<in> set (map fst incs))"
| "persists_seconds e = False"

definition seconds_writes :: "world \<Rightarrow> world \<Rightarrow> event list" where
  "seconds_writes w w' = filter persists_seconds (new_events w w')"

text \<open>
  Events among which there is no queue disposition, no file deletion and no stats write;
  and a stretch of processing that issues only such events and leaves the properties of the
  message and the job counters alone.
\<close>

definition quiet :: "event list \<Rightarrow> bool" where
  "quiet evs =
     (\<forall>e\<in>set evs. step_of e \<notin> {QueueRemove, QueueRequeue, FileDelete, StatsHour, StatsLifetime})"

definition inert :: "message \<Rightarrow> world \<Rightarrow> message \<Rightarrow> world \<Rightarrow> bool" where
  "inert m w m' w' =
     (props m' = props m \<and> jobsSucceeded w' = jobsSucceeded w \<and> jobsFailed w' = jobsFailed w \<and>
      jobsFailedSlicing w' = jobsFailedSlicing w \<and> jobsCanceled w' = jobsCanceled w \<and>
      (\<exists>evs. trace w' = trace w @ evs \<and> quiet evs))"

section \<open>Conditions on the collaborators\<close>

text \<open>
  A status write settles without rejecting: the update matched a document or gave no
  count, or it failed with a message that \<open>updateState\<close> drops.
\<close>

definition write_resolves :: "env \<Rightarrow> int \<Rightarrow> bool" where
  "write_resolves E st =
     (case printjob_update E st of
        UpdateResult n \<Rightarrow> n \<noteq> Some 0
      | UpdateError e \<Rightarrow> message e \<noteq> ''CANCELED'' \<and> message e \<noteq> ''SLICER'')"


definition downloads_succeed :: "env \<Rightarrow> message \<Rightarrow> bool" where
  "downloads_succeed E m =
     (s3_download E (field m ''stl_bucket'') (field m ''stl_key'') = None \<and>
      s3_download E (field m ''config_bucket'') (field m ''config_key'') = None)"

text \<open>The command line that \<open>spawnSlicer\<close> renders for a message.\<close>

definition slicer_command :: "env \<Rightarrow> message \<Rightarrow> string" where
  "slicer_command E m =
     cura_template E (field m ''config_local'') (field m ''stl_local'') (field m ''gcode_local'')"

text \<open>The job gets as far as the slicer, and the slicer exits normally.\<close>

definition slicer_succeeded :: "env \<Rightarrow> message \<Rightarrow> bool" where
  "slicer_succeeded E m =
     (write_resolves E STATE_PRE \<and> downloads_succeed E m \<and> write_resolves E STATE_RUN \<and>
      exec_cmd E (slicer_command E m) = None)"

text \<open>Every stage goes through.\<close>

definition all_succeed :: "env \<Rightarrow> message \<Rightarrow> bool" where
  "all_succeed E m =
     (slicer_succeeded E m \<and> write_resolves E STATE_POST \<and>
      s3_upload E (field m ''gcode_bucket'') (field m ''gcode_key'') = None \<and>
      write_resolves E STATE_DONE)"

text \<open>The seconds the slicer took, and the increments that a successful job sends to a
  stats document.\<close>

definition slicing_seconds :: "env \<Rightarrow> real" where
  "slicing_seconds E = real_of_int (clock_slicing_end E - clock_slicing_start E) / 1000"

definition success_incs :: "env \<Rightarrow> (string \<times> real) list" where
  "success_incs E = [(''slicing_succeeded'', 1), (''slicing_seconds'', slicing_seconds E)]"

section \<open>Sample inputs\<close>

text \<open>A complete request, and the object id of its job.\<close>

definition sample_raw :: "(string \<times> jsval) list" where
  "sample_raw =
     [(''config_file'', JStr ''https://s3/cfg/c.ini''),
      (''gcode_file'', JStr ''https://s3/out/m.gcode''),
      (''handle'', JStr ''h1''),
      (''job_id'', JStr ''SN-7''),
      (''job_oid'', JStr ''5a0000000000000000000001''),
      (''stl_file'', JStr ''https://s3/in/m.stl'')]"

definition sample_oid :: jsval where
  "sample_oid = JOid ''5a0000000000000000000001''"

text \<open>Requests that lack one required field.\<close>

definition raw_without_job_oid :: "(string \<times> jsval) list" where
  "raw_without_job_oid =
     [(''config_file'', JStr ''https://s3/cfg/c.ini''),
      (''gcode_file'', JStr ''https://s3/out/m.gcode''),
      (''handle'', JStr ''h1''),
      (''job_id'', JStr ''SN-7''),
      (''stl_file'', JStr ''https://s3/in/m.stl'')]"

definition raw_without_stl_file :: "(string \<times> jsval) list" where
  "raw_without_stl_file =
     [(''config_file'', JStr ''https://s3/cfg/c.ini''),
      (''gcode_file'', JStr ''https://s3/out/m.gcode''),
      (''handle'', JStr ''h1''),
      (''job_id'', JStr ''SN-7''),
      (''job_oid'', JStr ''5a0000000000000000000001'')]"

text \<open>
  Collaborators that all succeed.  An object id is made from a string as it is, and afresh
  from anything else; the three addresses of the sample request parse.
\<close>

definition sample_pieces :: "jsval \<Rightarrow> jserror + (jsval \<times> string \<times> string)" where
  "sample_pieces u =
     (if u = JStr ''https://s3/cfg/c.ini'' then Inr (JStr ''cfg'', ''c.ini'', ''c.ini'')
      else if u = JStr ''https://s3/out/m.gcode'' then Inr (JStr ''out'', ''m.gcode'', ''m.gcode'')
      else if u = JStr ''https://s3/in/m.stl'' then Inr (JStr ''in'', ''m.stl'', ''m.stl'')
      else Inl (JsError ''Parameter url must be a string''))"

definition sample_env :: env where
  "sample_env =
     \<lparr>object_id = (\<lambda>v. case v of JStr s \<Rightarrow> Inr (JOid s) | _ \<Rightarrow> Inr (JOid ''fresh'')),
      url_pieces = sample_pieces,
      unique = (\<lambda>k. ''u'' @ k),
      workDir = ''/w'',
      cura_template = (\<lambda>c s g. ''slice''),
      printjob_update = (\<lambda>st. UpdateResult (Some 1)),
      s3_download = (\<lambda>b k. None),
      config_rejects_first = False,
      exec_cmd = (\<lambda>c. None),
      s3_upload = (\<lambda>b k. None),
      fs_unlink = (\<lambda>f. None),
      clock_download_start = 1000,
      clock_download_end = 1200,
      clock_slicing_start = 1300,
      clock_slicing_end = 6300,
      clock_upload_start = 6400,
      clock_upload_end = 6500,
      round_hour = 3600000\<rparr>"

text \<open>No call issued yet, all counters at zero.\<close>

definition sample_world :: world where
  "sample_world =
     \<lparr>trace = [], jobsSucceeded = 0, jobsFailed = 0, jobsFailedSlicing = 0,
      jobsCanceled = 0, totalSlicingTime = 0\<rparr>"

text \<open>The sample request once its three resources are parsed.\<close>

definition sample_message :: message where
  "sample_message =
     \<lparr>props =
        [(''config_file'', JStr ''https://s3/cfg/c.ini''),
         (''gcode_file'', JStr ''https://s3/out/m.gcode''),
         (''handle'', JStr ''h1''),
         (''job_id'', JStr ''SN-7''),
         (''job_oid'', JOid ''5a0000000000000000000001''),
         (''stl_file'', JStr ''https://s3/in/m.stl''),
         (''stl_bucket'', JStr ''in''), (''stl_key'', JStr ''m.stl''),
         (''stl_local'', JStr ''/w/ustl-m.stl''),
         (''config_bucket'', JStr ''cfg''), (''config_key'', JStr ''c.ini''),
         (''config_local'', JStr ''/w/uconfig-c.ini''),
         (''gcode_bucket'', JStr ''out''), (''gcode_key'', JStr ''m.gcode''),
         (''gcode_local'', JStr ''/w/ugcode-m.gcode'')],
      download_time = zero_timing,
      upload_time = zero_timing,
      slicing_time = zero_timing\<rparr>"

text \<open>The same collaborators, except that every status write matches no document.\<close>

definition canceled_env :: env where
  "canceled_env = sample_env\<lparr>printjob_update := (\<lambda>st. UpdateResult (Some 0))\<rparr>"

text \<open>... except that the slicer command exits with a non-zero code.\<close>

definition slicer_fails_env :: env where
  "slicer_fails_env = sample_env\<lparr>exec_cmd := (\<lambda>c. Some (JsError ''Command failed: exit code 1''))\<rparr>"

text \<open>... except that the upload fails.\<close>

definition upload_fails_env :: env where
  "upload_fails_env = sample_env\<lparr>s3_upload := (\<lambda>b k. Some (JsError ''NetworkingError''))\<rparr>"


text \<open>... except that the document store cannot be reached.\<close>

definition db_down_env :: env where
  "db_down_env = sample_env\<lparr>printjob_update := (\<lambda>st. UpdateError (JsError ''no connection''))\<rparr>"

text \<open>... except that no file to delete exists.\<close>

definition missing_file_env :: env where
  "missing_file_env =
     sample_env\<lparr>fs_unlink := (\<lambda>f. Some (JsError ''ENOENT: no such file or directory''))\<rparr>"

section \<open>Facts about the stages\<close>

lemmas state_defs = STATE_WAITING_def STATE_PRE_def STATE_RUN_def STATE_POST_def STATE_DONE_def
  STATE_FAIL_def STATE_ERR_def

lemma emit_simps [simp]:
  "trace (emit e w) = trace w @ [e]"
  "jobsSucceeded (emit e w) = jobsSucceeded w"
  "jobsFailed (emit e w) = jobsFailed w"
  "jobsFailedSlicing (emit e w) = jobsFailedSlicing w"
  "jobsCanceled (emit e w) = jobsCanceled w"
  "totalSlicingTime (emit e w) = totalSlicingTime w"
  by (simp_all add: emit_def)

lemma state_text_known:
  "state_text STATE_PRE err = Some (STATE_PRE, ''Preparing slicer'',
     ''Preparing to slice the model; downloading the STL file and slicing options'')"
  "state_text STATE_RUN err = Some (STATE_RUN, ''Slicing'', ''Slicing the model'')"
  "state_text STATE_POST err = Some (STATE_POST, ''Saving sliced model'',
     ''Slicing completed; uploading the printing instructions for retrieval by the printer'')"
  "state_text STATE_DONE err = Some (STATE_DONE, ''Slicing completed'',
     ''Slicing process finished; model is ready to print'')"
  "state_text STATE_FAIL err = Some (STATE_FAIL, ''Cannot slice'',
     ''The model cannot be sliced; something is incorrect with the STL file'')"
  "state_text STATE_ERR (ErrObject e) = Some (STATE_ERR, ''Error'', ''Error; '' @ message e)"
  "state_text STATE_ERR (ErrString s) = Some (STATE_ERR, ''Error'', ''Error; undefined'')"
  by (simp_all add: state_text_def state_defs)

lemma updateState_outcome:
  assumes "state_text st err = Some (st', txt, d)"
  shows "updateState E m st err w =
           ((case printjob_update E st' of
               UpdateResult n \<Rightarrow> if n = Some 0 then Rejected (JsError ''CANCELED'') else Resolved
             | UpdateError e \<Rightarrow> update_catch e),
            emit (PrintJobUpdate (field m ''job_oid'') (status_op m st' txt d)) w)"
  using assms by (simp add: updateState_def update_catch_def Let_def split: db_outcome.splits)

lemma updateState_resolves:
  assumes "state_text st err = Some (st', txt, d)" and "write_resolves E st'"
  shows "updateState E m st err w =
           (Resolved, emit (PrintJobUpdate (field m ''job_oid'') (status_op m st' txt d)) w)"
  using assms by (auto simp: updateState_outcome write_resolves_def update_catch_def split: db_outcome.splits)



lemma swallow_Resolved [simp]: "swallow r = Resolved"
  by (cases r) simp_all

lemma removeFiles_three:
  "removeFiles E logid (JArr [a, b, c]) w =
     (Resolved, emit (Unlink c) (emit (Unlink b) (emit (Unlink a) w)))"
  by (simp add: removeFiles_def unlink_def split: prod.splits)

lemma cleanFiles_eq:
  "cleanFiles E m w =
     (Resolved, m, emit (Unlink (field m ''gcode_local'')) (emit (Unlink (field m ''config_local''))
        (emit (Unlink (field m ''stl_local'')) w)))"
  by (simp add: cleanFiles_def local_files_def removeFiles_three)

lemma inert_trans: "inert m w m1 w1 \<Longrightarrow> inert m1 w1 m2 w2 \<Longrightarrow> inert m w m2 w2"
  by (auto simp: inert_def quiet_def)

lemma field_timing [simp]:
  "field (m\<lparr>download_time := t\<rparr>) k = field m k"
  "field (m\<lparr>upload_time := t\<rparr>) k = field m k"
  "field (m\<lparr>slicing_time := t\<rparr>) k = field m k"
  by (simp_all add: field_def)

lemma downloadFiles_inert:
  assumes "downloadFiles E m w = (r, m', w')"
  shows "inert m w m' w'"
  using assms unfolding downloadFiles_def
  by (auto simp: updateState_outcome state_text_known Let_def inert_def quiet_def
       split: prod.splits outcome.splits)

lemma spawnSlicer_inert:
  assumes "spawnSlicer E m w = (r, m', w')"
  shows "inert m w m' w'"
  using assms unfolding spawnSlicer_def
  by (auto simp: updateState_outcome state_text_known Let_def inert_def quiet_def
       split: prod.splits outcome.splits option.splits)

lemma uploadFile_inert:
  assumes "uploadFile E m w = (r, m', w')"
  shows "inert m w m' w'"
  using assms unfolding uploadFile_def
  by (auto simp: updateState_outcome state_text_known Let_def inert_def quiet_def
       split: prod.splits outcome.splits option.splits)

lemma notifyDone_rejected_inert:
  assumes "notifyDone E m w = (Rejected e, m', w')"
  shows "inert m w m' w'"
  using assms unfolding notifyDone_def
  by (auto simp: updateState_outcome state_text_known Let_def inert_def quiet_def
       split: prod.splits outcome.splits option.splits)


lemma andThen_rejected:
  assumes "andThen r f = (Rejected e, m', w')"
  shows "r = (Rejected e, m', w') \<or> (\<exists>m1 w1. r = (Resolved, m1, w1) \<and> f m1 w1 = (Rejected e, m', w'))"
  using assms by (auto simp: andThen_def split: prod.splits outcome.splits)

lemma andThen_resolved:
  assumes "andThen r f = (Resolved, m', w')"
  shows "\<exists>m1 w1. r = (Resolved, m1, w1) \<and> f m1 w1 = (Resolved, m', w')"
  using assms by (auto simp: andThen_def split: prod.splits outcome.splits)

lemma andThen_inert:
  assumes "andThen r f = (Rejected e, m', w')"
    and "\<And>o1 m1 w1. r = (o1, m1, w1) \<Longrightarrow> inert m w m1 w1"
    and "\<And>m1 w1. f m1 w1 = (Rejected e, m', w') \<Longrightarrow> inert m1 w1 m' w'"
  shows "inert m w m' w'"
  using andThen_rejected [OF assms(1)] assms(2,3) by (blast intro: inert_trans)

lemma andThen_inert_all:
  assumes "andThen r f = (o2, m', w')"
    and "\<And>o1 m1 w1. r = (o1, m1, w1) \<Longrightarrow> inert m w m1 w1"
    and "\<And>m1 w1 o3. f m1 w1 = (o3, m', w') \<Longrightarrow> inert m1 w1 m' w'"
  shows "inert m w m' w'"
proof (cases o2)
  case Resolved
  with andThen_resolved assms show ?thesis by (blast intro: inert_trans)
next
  case (Rejected e)
  with andThen_rejected assms show ?thesis by (blast intro: inert_trans)
qed

lemma recordSuccess_not_rejected: "recordSuccess E m w \<noteq> (Rejected e, m', w')"
  by (simp add: recordSuccess_def Let_def)

lemma cleanFiles_not_rejected: "cleanFiles E m w \<noteq> (Rejected e, m', w')"
  by (simp add: cleanFiles_eq)

lemma chain_rejected:
  assumes "processChain E m w = (Rejected err, m', w')"
  shows "inert m w m' w'"
proof -
  let ?s3 = "andThen (andThen (downloadFiles E m w) (spawnSlicer E)) (uploadFile E)"
  have i2: "inert m w m1 w1" if "andThen (downloadFiles E m w) (spawnSlicer E) = (o1, m1, w1)" for o1 m1 w1
    using that by (rule andThen_inert_all) (auto intro: downloadFiles_inert spawnSlicer_inert)
  have i3: "inert m w m1 w1" if "?s3 = (o1, m1, w1)" for o1 m1 w1
    using that by (rule andThen_inert_all) (auto intro: i2 uploadFile_inert)
  from assms have "andThen (andThen ?s3 (notifyDone E)) (cleanFiles E) = (Rejected err, m', w')"
    unfolding processChain_def by (auto dest!: andThen_rejected simp: recordSuccess_not_rejected)
  then have "andThen ?s3 (notifyDone E) = (Rejected err, m', w')"
    by (auto dest!: andThen_rejected simp: cleanFiles_not_rejected)
  then show ?thesis
    by (rule andThen_inert) (auto intro: i3 notifyDone_rejected_inert)
qed


lemma status_status_op [simp]: "status (status_op m st lbl d) = st"
  by (simp add: status_op_def)

lemma chain_all_succeed:
  assumes "all_succeed E m"
  shows "\<exists>m' w' evs. processChain E m w = (Resolved, m', w') \<and> trace w' = trace w @ evs \<and>
           map step_of evs =
             [StateWrite STATE_PRE, Download, Download, StateWrite STATE_RUN, Slice,
              StateWrite STATE_POST, Upload, StateWrite STATE_DONE, QueueRemove,
              FileDelete, FileDelete, FileDelete, StatsHour, StatsLifetime] \<and>
           jobsSucceeded w' = jobsSucceeded w + 1 \<and> jobsFailed w' = jobsFailed w \<and>
           jobsFailedSlicing w' = jobsFailedSlicing w \<and> jobsCanceled w' = jobsCanceled w"
  using assms
  unfolding processChain_def andThen_def downloadFiles_def spawnSlicer_def uploadFile_def notifyDone_def
    cleanFiles_eq recordSuccess_def all_succeed_def slicer_succeeded_def downloads_succeed_def slicer_command_def
  by (simp add: updateState_resolves state_text_known Let_def promise_join_def
        objectIdFromTimeStamp_def objectIdTimeZero_def)

lemma downloadFiles_resolved_iff:
  "(fst (downloadFiles E m w) = Resolved) = (write_resolves E STATE_PRE \<and> downloads_succeed E m)"
  unfolding downloadFiles_def downloads_succeed_def
  by (cases "write_resolves E STATE_PRE")
     (auto simp: updateState_outcome state_text_known Let_def promise_join_def write_resolves_def update_catch_def
        split: prod.splits outcome.splits option.splits db_outcome.splits)

lemma spawnSlicer_resolved_iff:
  "(fst (spawnSlicer E m w) = Resolved) =
     (write_resolves E STATE_RUN \<and> exec_cmd E (slicer_command E m) = None)"
  unfolding spawnSlicer_def slicer_command_def
  by (cases "write_resolves E STATE_RUN")
     (auto simp: updateState_outcome state_text_known Let_def write_resolves_def update_catch_def
        split: prod.splits outcome.splits option.splits db_outcome.splits)

lemma uploadFile_resolved_iff:
  "(fst (uploadFile E m w) = Resolved) =
     (write_resolves E STATE_POST \<and> s3_upload E (field m ''gcode_bucket'') (field m ''gcode_key'') = None)"
  unfolding uploadFile_def
  by (cases "write_resolves E STATE_POST")
     (auto simp: updateState_outcome state_text_known Let_def write_resolves_def update_catch_def
        split: prod.splits outcome.splits option.splits db_outcome.splits)

lemma notifyDone_resolved_iff:
  "(fst (notifyDone E m w) = Resolved) = write_resolves E STATE_DONE"
  unfolding notifyDone_def
  by (cases "write_resolves E STATE_DONE")
     (auto simp: updateState_outcome state_text_known Let_def write_resolves_def update_catch_def
        split: prod.splits outcome.splits option.splits db_outcome.splits)

lemma cleanFiles_fst: "fst (cleanFiles E m w) = Resolved"
  by (simp add: cleanFiles_eq)

lemma recordSuccess_fst: "fst (recordSuccess E m w) = Resolved"
  by (simp add: recordSuccess_def Let_def)

lemma downloadFiles_props: "props (fst (snd (downloadFiles E m w))) = props m"
  using downloadFiles_inert [of E m w] by (cases "downloadFiles E m w") (auto simp: inert_def)

lemma spawnSlicer_props: "props (fst (snd (spawnSlicer E m w))) = props m"
  using spawnSlicer_inert [of E m w] by (cases "spawnSlicer E m w") (auto simp: inert_def)

lemma uploadFile_props: "props (fst (snd (uploadFile E m w))) = props m"
  using uploadFile_inert [of E m w] by (cases "uploadFile E m w") (auto simp: inert_def)

lemma notifyDone_props: "props (fst (snd (notifyDone E m w))) = props m"
  by (auto simp: notifyDone_def split: prod.splits outcome.splits)

lemma cleanFiles_props: "props (fst (snd (cleanFiles E m w))) = props m"
  by (simp add: cleanFiles_eq)

lemma recordSuccess_props: "props (fst (snd (recordSuccess E m w))) = props m"
  by (simp add: recordSuccess_def Let_def)

lemma downloadFiles_total:
  "totalSlicingTime (snd (snd (downloadFiles E m w))) = totalSlicingTime w"
  unfolding downloadFiles_def
  by (auto simp: updateState_outcome state_text_known Let_def split: prod.splits outcome.splits)

lemma spawnSlicer_total:
  "totalSlicingTime (snd (snd (spawnSlicer E m w))) =
     totalSlicingTime w +
       (if write_resolves E STATE_RUN \<and> exec_cmd E (slicer_command E m) = None
        then real_of_int (clock_slicing_end E - clock_slicing_start E) / 1000 else 0)"
  unfolding spawnSlicer_def slicer_command_def
  by (cases "write_resolves E STATE_RUN")
     (auto simp: updateState_outcome state_text_known Let_def write_resolves_def update_catch_def
        split: prod.splits outcome.splits option.splits db_outcome.splits)

lemma uploadFile_total:
  "totalSlicingTime (snd (snd (uploadFile E m w))) = totalSlicingTime w"
  unfolding uploadFile_def
  by (auto simp: updateState_outcome state_text_known Let_def split: prod.splits outcome.splits option.splits)

lemma notifyDone_total:
  "totalSlicingTime (snd (snd (notifyDone E m w))) = totalSlicingTime w"
  unfolding notifyDone_def
  by (auto simp: updateState_outcome state_text_known Let_def split: prod.splits outcome.splits)

lemma cleanFiles_total:
  "totalSlicingTime (snd (snd (cleanFiles E m w))) = totalSlicingTime w"
  by (simp add: cleanFiles_eq)

lemma recordSuccess_total:
  "totalSlicingTime (snd (snd (recordSuccess E m w))) = totalSlicingTime w"
  by (simp add: recordSuccess_def Let_def)

lemmas stage_totals = downloadFiles_total spawnSlicer_total uploadFile_total notifyDone_total
  cleanFiles_total recordSuccess_total

lemmas stage_resolved = downloadFiles_resolved_iff spawnSlicer_resolved_iff uploadFile_resolved_iff
  notifyDone_resolved_iff cleanFiles_fst recordSuccess_fst


lemma andThen_fst:
  "(fst (andThen r f) = Resolved) =
     (fst r = Resolved \<and> fst (f (fst (snd r)) (snd (snd r))) = Resolved)"
  by (cases r) (auto simp: andThen_def split: outcome.splits)

lemma andThen_props:
  assumes "\<And>m w. props (fst (snd (f m w))) = props m"
  shows "props (fst (snd (andThen r f))) = props (fst (snd r))"
  using assms by (cases r) (auto simp: andThen_def split: outcome.splits)

lemma andThen_total:
  "totalSlicingTime (snd (snd (andThen r f))) =
     (if fst r = Resolved then totalSlicingTime (snd (snd (f (fst (snd r)) (snd (snd r)))))
      else totalSlicingTime (snd (snd r)))"
  by (cases r) (auto simp: andThen_def split: outcome.splits)

lemmas chain_props = andThen_props [OF spawnSlicer_props] andThen_props [OF uploadFile_props]
  andThen_props [OF notifyDone_props] andThen_props [OF cleanFiles_props]
  andThen_props [OF recordSuccess_props] downloadFiles_props

lemma chain_resolved_iff:
  "(fst (processChain E m w) = Resolved) = all_succeed E m"
  unfolding processChain_def all_succeed_def slicer_succeeded_def
  by (simp add: andThen_fst stage_resolved chain_props field_def slicer_command_def
        downloads_succeed_def conj_assoc)

lemma chain_total:
  "totalSlicingTime (snd (snd (processChain E m w))) =
     totalSlicingTime w +
       (if slicer_succeeded E m
        then real_of_int (clock_slicing_end E - clock_slicing_start E) / 1000 else 0)"
  unfolding processChain_def slicer_succeeded_def
  by (simp add: andThen_total andThen_fst stage_resolved stage_totals chain_props field_def
        slicer_command_def downloads_succeed_def)


lemma processJob_resolved:
  "processChain E m w = (Resolved, m', w') \<Longrightarrow> processJob E m w = w'"
  by (simp add: processJob_def)

lemma processJob_rejected:
  "processChain E m w = (Rejected err, m', w') \<Longrightarrow> processJob E m w = handleFailure E err m' w'"
  by (simp add: processJob_def)

lemma handleFailure_canceled:
  assumes "message err = ''CANCELED''"
  shows "trace (handleFailure E err m w) =
           trace w @ [StatsUpdate (objectIdFromTimeStamp E) [(''slicing_canceled'', 1)],
                      Unlink (field m ''stl_local''), Unlink (field m ''config_local''),
                      Unlink (field m ''gcode_local''), RemoveMessage (field m ''handle'')]
       \<and> jobsCanceled (handleFailure E err m w) = jobsCanceled w + 1
       \<and> jobsSucceeded (handleFailure E err m w) = jobsSucceeded w
       \<and> jobsFailed (handleFailure E err m w) = jobsFailed w
       \<and> jobsFailedSlicing (handleFailure E err m w) = jobsFailedSlicing w
       \<and> totalSlicingTime (handleFailure E err m w) = totalSlicingTime w"
  using assms by (simp add: handleFailure_def local_files_def removeFiles_three)

lemma handleFailure_slicer:
  assumes "message err = ''SLICER''"
  shows "trace (handleFailure E err m w) =
           trace w @ [StatsUpdate (objectIdFromTimeStamp E) [(''slicing_failed'', 1)],
                      PrintJobUpdate (field m ''job_oid'')
                        (status_op m STATE_FAIL ''Cannot slice''
                           ''The model cannot be sliced; something is incorrect with the STL file''),
                      Unlink (field m ''stl_local''), Unlink (field m ''config_local''),
                      Unlink (field m ''gcode_local''), RemoveMessage (field m ''handle'')]
       \<and> jobsFailedSlicing (handleFailure E err m w) = jobsFailedSlicing w + 1
       \<and> jobsSucceeded (handleFailure E err m w) = jobsSucceeded w
       \<and> jobsFailed (handleFailure E err m w) = jobsFailed w
       \<and> jobsCanceled (handleFailure E err m w) = jobsCanceled w
       \<and> totalSlicingTime (handleFailure E err m w) = totalSlicingTime w"
  using assms
  by (simp add: handleFailure_def local_files_def removeFiles_three updateState_outcome state_text_known)

lemma handleFailure_other:
  assumes "message err \<noteq> ''CANCELED''" and "message err \<noteq> ''SLICER''"
  shows "trace (handleFailure E err m w) =
           trace w @ [PrintJobUpdate (field m ''job_oid'')
                        (status_op m STATE_ERR ''Error'' (''Error; '' @ message err)),
                      Unlink (field m ''stl_local''), Unlink (field m ''config_local''),
                      Unlink (field m ''gcode_local''), RequeueMessage (field m ''handle'')]
       \<and> jobsFailed (handleFailure E err m w) = jobsFailed w + 1
       \<and> jobsSucceeded (handleFailure E err m w) = jobsSucceeded w
       \<and> jobsFailedSlicing (handleFailure E err m w) = jobsFailedSlicing w
       \<and> jobsCanceled (handleFailure E err m w) = jobsCanceled w
       \<and> totalSlicingTime (handleFailure E err m w) = totalSlicingTime w"
  using assms
  by (simp add: handleFailure_def local_files_def removeFiles_three updateState_outcome state_text_known)

lemma quiet_steps:
  assumes "quiet evs"
  shows "QueueRemove \<notin> set (map step_of evs) \<and> QueueRequeue \<notin> set (map step_of evs) \<and>
         FileDelete \<notin> set (map step_of evs) \<and> StatsHour \<notin> set (map step_of evs) \<and>
         StatsLifetime \<notin> set (map step_of evs)"
  using assms by (auto simp: quiet_def)

lemmas stage_defs = processChain_def andThen_def downloadFiles_def spawnSlicer_def uploadFile_def
  notifyDone_def cleanFiles_eq recordSuccess_def updateState_outcome state_text_known
  promise_join_def update_catch_def Let_def

lemma sample_world_simps:
  "trace sample_world = []" "jobsSucceeded sample_world = 0" "jobsFailed sample_world = 0"
  "jobsFailedSlicing sample_world = 0" "jobsCanceled sample_world = 0"
  "totalSlicingTime sample_world = 0"
  by (simp_all add: sample_world_def)

section \<open>Cancellation\<close>

text \<open>
  Claim C2.  When the chain of a tracked message is rejected with the \<open>CANCELED\<close> error,
  nothing more is written to the status document: after the point of failure the worker
  issues the hourly stats write, the three file deletions and the removal of the queue
  message, in this order.  The message is removed once and never requeued, and the
  canceled counter goes up by one while the other job counters stay as they were.
\<close>

theorem canceled_no_write_cleanup_remove:
  assumes "processChain E m w = (Rejected err, m', w')" and "message err = ''CANCELED''"
  shows "trace (processJob E m w) =
           trace w' @ [StatsUpdate (objectIdFromTimeStamp E) [(''slicing_canceled'', 1)],
                       Unlink (field m ''stl_local''), Unlink (field m ''config_local''),
                       Unlink (field m ''gcode_local''), RemoveMessage (field m ''handle'')]
       \<and> count_list (steps w (processJob E m w)) QueueRemove = 1
       \<and> QueueRequeue \<notin> set (steps w (processJob E m w))
       \<and> jobsCanceled (processJob E m w) = jobsCanceled w + 1
       \<and> jobsSucceeded (processJob E m w) = jobsSucceeded w
       \<and> jobsFailed (processJob E m w) = jobsFailed w
       \<and> jobsFailedSlicing (processJob E m w) = jobsFailedSlicing w"
proof -
  from chain_rejected [OF assms(1)] obtain evs where
    pr: "props m' = props m" and tr: "trace w' = trace w @ evs" and q: "quiet evs"
    and cnt: "jobsSucceeded w' = jobsSucceeded w" "jobsFailed w' = jobsFailed w"
      "jobsFailedSlicing w' = jobsFailedSlicing w" "jobsCanceled w' = jobsCanceled w"
    by (auto simp: inert_def)
  have f: "field m' k = field m k" for k using pr by (simp add: field_def)
  have pj: "processJob E m w = handleFailure E err m' w'"
    using assms(1) by (rule processJob_rejected)
  note h = handleFailure_canceled [OF assms(2), of E m' w', folded pj]
  have st: "steps w (processJob E m w) =
      map step_of evs @ [StatsHour, FileDelete, FileDelete, FileDelete, QueueRemove]"
    using h tr by (simp add: steps_def new_events_def objectIdFromTimeStamp_def)
  show ?thesis
    using h cnt quiet_steps [OF q] by (simp add: st f count_list_0_iff)
qed

theorem canceled_witness:
  "fst (processChain canceled_env sample_message sample_world) = Rejected (JsError ''CANCELED'') \<and>
   steps sample_world (processJob canceled_env sample_message sample_world) =
     [StateWrite STATE_PRE, StatsHour, FileDelete, FileDelete, FileDelete, QueueRemove] \<and>
   jobsCanceled (processJob canceled_env sample_message sample_world) = 1"
proof -
  have c: "processChain canceled_env sample_message sample_world =
      (Rejected (JsError ''CANCELED''), sample_message,
       emit (PrintJobUpdate (field sample_message ''job_oid'')
         (status_op sample_message STATE_PRE ''Preparing slicer''
            ''Preparing to slice the model; downloading the STL file and slicing options''))
         sample_world)"
    by (simp add: stage_defs canceled_env_def sample_env_def)
  from canceled_no_write_cleanup_remove [OF c]
  show ?thesis
    by (simp add: c steps_def new_events_def sample_world_simps objectIdFromTimeStamp_def)
qed

section \<open>Slicer failure\<close>

lemma chain_slicer_fails:
  assumes "write_resolves E STATE_PRE" and "downloads_succeed E m" and "write_resolves E STATE_RUN"
    and "exec_cmd E (slicer_command E m) = Some e"
  shows "\<exists>m' w' evs. processChain E m w = (Rejected (JsError ''SLICER''), m', w') \<and>
           trace w' = trace w @ evs \<and>
           map step_of evs = [StateWrite STATE_PRE, Download, Download, StateWrite STATE_RUN, Slice] \<and>
           totalSlicingTime w' = totalSlicingTime w"
  using assms
  unfolding processChain_def andThen_def downloadFiles_def spawnSlicer_def downloads_succeed_def
    slicer_command_def
  by (simp add: updateState_resolves state_text_known Let_def promise_join_def)

text \<open>
  Claim C3.  When the status writes and downloads before it go through and the slicer
  command exits abnormally, the chain is rejected with the \<open>SLICER\<close> error whatever
  the error of the command was; the worker then issues the hourly stats write, a write of
  the \<open>STATE_FAIL\<close> status, the three file deletions and the removal of the queue
  message.  The message is not requeued, and the failed-slicing counter goes up by one
  while the other job counters stay as they were.
\<close>

theorem slicer_failure_fails_and_removes:
  assumes "write_resolves E STATE_PRE" and "downloads_succeed E m" and "write_resolves E STATE_RUN"
    and "exec_cmd E (slicer_command E m) = Some e"
  shows "fst (processChain E m w) = Rejected (JsError ''SLICER'')
       \<and> steps w (processJob E m w) =
           [StateWrite STATE_PRE, Download, Download, StateWrite STATE_RUN, Slice,
            StatsHour, StateWrite STATE_FAIL, FileDelete, FileDelete, FileDelete, QueueRemove]
       \<and> jobsFailedSlicing (processJob E m w) = jobsFailedSlicing w + 1
       \<and> jobsSucceeded (processJob E m w) = jobsSucceeded w
       \<and> jobsFailed (processJob E m w) = jobsFailed w
       \<and> jobsCanceled (processJob E m w) = jobsCanceled w"
proof -
  from chain_slicer_fails [OF assms, of w] obtain m' w' evs where
    c: "processChain E m w = (Rejected (JsError ''SLICER''), m', w')"
    and tr: "trace w' = trace w @ evs"
    and ev: "map step_of evs = [StateWrite STATE_PRE, Download, Download, StateWrite STATE_RUN, Slice]"
    by auto
  from chain_rejected [OF c] have
    cnt: "jobsSucceeded w' = jobsSucceeded w" "jobsFailed w' = jobsFailed w"
      "jobsFailedSlicing w' = jobsFailedSlicing w" "jobsCanceled w' = jobsCanceled w"
    by (auto simp: inert_def)
  have pj: "processJob E m w = handleFailure E (JsError ''SLICER'') m' w'"
    using c by (rule processJob_rejected)
  have h: "trace (processJob E m w) =
           trace w' @ [StatsUpdate (objectIdFromTimeStamp E) [(''slicing_failed'', 1)],
                      PrintJobUpdate (field m' ''job_oid'')
                        (status_op m' STATE_FAIL ''Cannot slice''
                           ''The model cannot be sliced; something is incorrect with the STL file''),
                      Unlink (field m' ''stl_local''), Unlink (field m' ''config_local''),
                      Unlink (field m' ''gcode_local''), RemoveMessage (field m' ''handle'')]
       \<and> jobsFailedSlicing (processJob E m w) = jobsFailedSlicing w' + 1
       \<and> jobsSucceeded (processJob E m w) = jobsSucceeded w'
       \<and> jobsFailed (processJob E m w) = jobsFailed w'
       \<and> jobsCanceled (processJob E m w) = jobsCanceled w'"
    using handleFailure_slicer [of "JsError ''SLICER''" E m' w'] by (simp add: pj)
  have st: "steps w (processJob E m w) =
      map step_of evs @ [StatsHour, StateWrite STATE_FAIL, FileDelete, FileDelete, FileDelete, QueueRemove]"
    using h tr by (simp add: steps_def new_events_def objectIdFromTimeStamp_def)
  show ?thesis
    using h cnt by (simp add: st ev c)
qed

theorem slicer_failure_witness:
  "write_resolves slicer_fails_env STATE_PRE \<and> downloads_succeed slicer_fails_env sample_message \<and>
   write_resolves slicer_fails_env STATE_RUN \<and>
   exec_cmd slicer_fails_env (slicer_command slicer_fails_env sample_message) =
     Some (JsError ''Command failed: exit code 1'') \<and>
   jobsFailedSlicing (processJob slicer_fails_env sample_message sample_world) = 1 \<and>
   QueueRequeue \<notin> set (steps sample_world (processJob slicer_fails_env sample_message sample_world))"
proof -
  have h: "write_resolves slicer_fails_env STATE_PRE" "downloads_succeed slicer_fails_env sample_message"
    "write_resolves slicer_fails_env STATE_RUN"
    "exec_cmd slicer_fails_env (slicer_command slicer_fails_env sample_message) =
       Some (JsError ''Command failed: exit code 1'')"
    by (simp_all add: slicer_fails_env_def sample_env_def write_resolves_def downloads_succeed_def)
  from slicer_failure_fails_and_removes [OF h, of sample_world] h
  show ?thesis by (simp add: sample_world_simps)
qed

section \<open>Other failures\<close>

text \<open>
  Claim C4.  When the chain of a tracked message is rejected with an error that is neither
  \<open>CANCELED\<close> nor \<open>SLICER\<close>, the worker issues a status write for the job, then the
  three file deletions, then the requeue of the message.  The document written has the
  status \<open>STATE_ERR\<close>, the label \<open>Error\<close>, the detail \<open>Error; \<close> followed by the
  text of the error, the job id and the three duration triples of the message as they stand
  at the failure, and \<open>waiting\<close> in place of the result file.  The message is requeued
  once and never removed, and the generic failure counter goes up by one while the other job
  counters stay as they were.
\<close>

theorem other_failure_errored_and_requeued:
  assumes "processChain E m w = (Rejected err, m', w')"
    and "message err \<noteq> ''CANCELED''" and "message err \<noteq> ''SLICER''"
  shows "trace (processJob E m w) =
           trace w' @ [PrintJobUpdate (field m ''job_oid'')
                         \<lparr>status = STATE_ERR,
                          jobID = field m ''job_id'',
                          progress = ''Error'',
                          progressDetail = ''Error; '' @ message err,
                          downloadTime = download_time m',
                          uploadTime = upload_time m',
                          slicingTime = slicing_time m',
                          gcode_file = JStr ''waiting''\<rparr>,
                       Unlink (field m ''stl_local''), Unlink (field m ''config_local''),
                       Unlink (field m ''gcode_local''), RequeueMessage (field m ''handle'')]
       \<and> count_list (steps w (processJob E m w)) QueueRequeue = 1
       \<and> QueueRemove \<notin> set (steps w (processJob E m w))
       \<and> jobsFailed (processJob E m w) = jobsFailed w + 1
       \<and> jobsSucceeded (processJob E m w) = jobsSucceeded w
       \<and> jobsFailedSlicing (processJob E m w) = jobsFailedSlicing w
       \<and> jobsCanceled (processJob E m w) = jobsCanceled w"
proof -
  from chain_rejected [OF assms(1)] obtain evs where
    pr: "props m' = props m" and tr: "trace w' = trace w @ evs" and q: "quiet evs"
    and cnt: "jobsSucceeded w' = jobsSucceeded w" "jobsFailed w' = jobsFailed w"
      "jobsFailedSlicing w' = jobsFailedSlicing w" "jobsCanceled w' = jobsCanceled w"
    by (auto simp: inert_def)
  have f: "field m' k = field m k" for k using pr by (simp add: field_def)
  have ne: "STATE_ERR \<noteq> STATE_DONE" by (simp add: state_defs)
  have doc: "status_op m' STATE_ERR ''Error'' (''Error; '' @ message err) =
      \<lparr>status = STATE_ERR, jobID = field m ''job_id'', progress = ''Error'',
       progressDetail = ''Error; '' @ message err, downloadTime = download_time m',
       uploadTime = upload_time m', slicingTime = slicing_time m',
       gcode_file = JStr ''waiting''\<rparr>"
    using ne by (simp add: status_op_def f)
  have pj: "processJob E m w = handleFailure E err m' w'"
    using assms(1) by (rule processJob_rejected)
  note h = handleFailure_other [OF assms(2,3), of E m' w', folded pj]
  have st: "steps w (processJob E m w) =
      map step_of evs @ [StateWrite STATE_ERR, FileDelete, FileDelete, FileDelete, QueueRequeue]"
    using h tr by (simp add: steps_def new_events_def)
  show ?thesis
    using h cnt quiet_steps [OF q] doc by (simp add: st f count_list_0_iff)
qed

theorem other_failure_witness:
  "fst (processChain upload_fails_env sample_message sample_world) = Rejected (JsError ''NetworkingError'') \<and>
   drop 7 (trace (processJob upload_fails_env sample_message sample_world)) =
     [PrintJobUpdate (JOid ''5a0000000000000000000001'')
        \<lparr>status = STATE_ERR,
         jobID = JStr ''SN-7'',
         progress = ''Error'',
         progressDetail = ''Error; NetworkingError'',
         downloadTime = \<lparr>elapsed = 200, started = 1000, ended = 1200\<rparr>,
         uploadTime = \<lparr>elapsed = 0, started = 6400, ended = 0\<rparr>,
         slicingTime = \<lparr>elapsed = 5000, started = 1300, ended = 6300\<rparr>,
         gcode_file = JStr ''waiting''\<rparr>,
      Unlink (JStr ''/w/ustl-m.stl''), Unlink (JStr ''/w/uconfig-c.ini''),
      Unlink (JStr ''/w/ugcode-m.gcode''), RequeueMessage (JStr ''h1'')] \<and>
   steps sample_world (processJob upload_fails_env sample_message sample_world) =
     [StateWrite STATE_PRE, Download, Download, StateWrite STATE_RUN, Slice, StateWrite STATE_POST,
      Upload, StateWrite STATE_ERR, FileDelete, FileDelete, FileDelete, QueueRequeue] \<and>
   jobsFailed (processJob upload_fails_env sample_message sample_world) = 1"
proof -
  obtain m' w' where c: "processChain upload_fails_env sample_message sample_world =
      (Rejected (JsError ''NetworkingError''), m', w')"
    and tr: "map step_of (trace w') = [StateWrite STATE_PRE, Download, Download, StateWrite STATE_RUN, Slice, StateWrite STATE_POST, Upload]"
    and tm: "download_time m' = \<lparr>elapsed = 200, started = 1000, ended = 1200\<rparr>"
      "upload_time m' = \<lparr>elapsed = 0, started = 6400, ended = 0\<rparr>"
      "slicing_time m' = \<lparr>elapsed = 5000, started = 1300, ended = 6300\<rparr>"
    by (simp add: stage_defs upload_fails_env_def sample_env_def sample_world_simps
          sample_message_def zero_timing_def)
  have len: "length (trace w') = 7"
    using arg_cong [OF tr, of length] by simp
  have fl: "field sample_message ''job_oid'' = JOid ''5a0000000000000000000001''"
    "field sample_message ''job_id'' = JStr ''SN-7''"
    "field sample_message ''stl_local'' = JStr ''/w/ustl-m.stl''"
    "field sample_message ''config_local'' = JStr ''/w/uconfig-c.ini''"
    "field sample_message ''gcode_local'' = JStr ''/w/ugcode-m.gcode''"
    "field sample_message ''handle'' = JStr ''h1''"
    by (simp_all add: field_def sample_message_def)
  from other_failure_errored_and_requeued [OF c]
  show ?thesis
    using tr len by (simp add: c tm fl steps_def new_events_def sample_world_simps)
qed

section \<open>The successful run\<close>

lemma find_mustHave_None:
  assumes "\<forall>k\<in>set mustHave. k \<noteq> ''job_oid'' \<longrightarrow> map_of raw k \<noteq> None"
  shows "find (\<lambda>k. \<not> has_field (initial_message raw oid) k) mustHave = None"
  using assms
  by (simp add: mustHave_def has_field_def initial_message_def update_conv')

lemma processMessage_tracked:
  assumes "object_id E (case map_of raw ''job_oid'' of None \<Rightarrow> JUndefined | Some v \<Rightarrow> v) = Inr oid"
    and "\<forall>k\<in>set mustHave. k \<noteq> ''job_oid'' \<longrightarrow> map_of raw k \<noteq> None"
    and "parseUrls E (initial_message raw oid) = (None, m)"
  shows "processMessage E raw w = (Returned, processJob E m (track m w))"
  using assms(1,3) find_mustHave_None [OF assms(2), of oid]
  by (simp add: processMessage_def Let_def)


lemma track_trace:
  "trace (track m w) = trace w @ [TrackMessage (field m ''handle''), RunningProcessesInc 1]"
  by (simp add: track_def)

lemma sample_parseUrls:
  "parseUrls sample_env (initial_message sample_raw sample_oid) = (None, sample_message)"
  by (simp add: parseUrls_def parseUrl_def sample_env_def sample_raw_def sample_oid_def
        initial_message_def sample_message_def isEmpty_message_def has_field_def field_def
        sample_pieces_def time_fields_def)

lemma sample_all_succeed: "all_succeed sample_env sample_message"
  by (simp add: all_succeed_def slicer_succeeded_def downloads_succeed_def write_resolves_def
        sample_env_def)

text \<open>
  Claim C1.  For a message that has all six required fields, whose job id converts and
  whose three addresses parse, and for which every status write, both downloads, the slicer
  and the upload go through, \<open>processMessage\<close> writes the statuses \<open>STATE_PRE\<close>,
  \<open>STATE_RUN\<close>, \<open>STATE_POST\<close>, \<open>STATE_DONE\<close> in this order and no other status.
  Each write is issued before the calls of its stage: the downloads, the slicer command,
  the upload, and the removal of the queue message.
\<close>

theorem success_state_order:
  assumes "object_id E (case map_of raw ''job_oid'' of None \<Rightarrow> JUndefined | Some v \<Rightarrow> v) = Inr oid"
    and "\<forall>k\<in>set mustHave. map_of raw k \<noteq> None"
    and "parseUrls E (initial_message raw oid) = (None, m)"
    and "all_succeed E m"
  shows "fst (processMessage E raw w) = Returned
       \<and> steps w (snd (processMessage E raw w)) =
           [QueueTrack, InFlight,
            StateWrite STATE_PRE, Download, Download,
            StateWrite STATE_RUN, Slice,
            StateWrite STATE_POST, Upload,
            StateWrite STATE_DONE, QueueRemove,
            FileDelete, FileDelete, FileDelete, StatsHour, StatsLifetime]
       \<and> state_writes (steps w (snd (processMessage E raw w))) =
           [STATE_PRE, STATE_RUN, STATE_POST, STATE_DONE]"
proof -
  have pm: "processMessage E raw w = (Returned, processJob E m (track m w))"
    using assms(1,2,3) by (intro processMessage_tracked) auto
  from chain_all_succeed [OF assms(4), of "track m w"] obtain m' w' evs where
    c: "processChain E m (track m w) = (Resolved, m', w')"
    and tr: "trace w' = trace (track m w) @ evs"
    and ev: "map step_of evs =
             [StateWrite STATE_PRE, Download, Download, StateWrite STATE_RUN, Slice,
              StateWrite STATE_POST, Upload, StateWrite STATE_DONE, QueueRemove,
              FileDelete, FileDelete, FileDelete, StatsHour, StatsLifetime]"
    by auto
  have pj: "processJob E m (track m w) = w'"
    using c by (rule processJob_resolved)
  have st: "steps w w' = [QueueTrack, InFlight] @ map step_of evs"
    using tr by (simp add: steps_def new_events_def track_trace)
  show ?thesis
    by (simp add: pm pj st ev)
qed

theorem success_state_order_witness:
  "state_writes (steps sample_world (snd (processMessage sample_env sample_raw sample_world))) =
     [STATE_PRE, STATE_RUN, STATE_POST, STATE_DONE]"
proof -
  have o: "object_id sample_env (case map_of sample_raw ''job_oid'' of None \<Rightarrow> JUndefined | Some v \<Rightarrow> v)
             = Inr sample_oid"
    by (simp add: sample_env_def sample_raw_def sample_oid_def)
  have f: "\<forall>k\<in>set mustHave. map_of sample_raw k \<noteq> None"
    by (simp add: mustHave_def sample_raw_def)
  from success_state_order [OF o f sample_parseUrls sample_all_succeed, of sample_world]
  show ?thesis by simp
qed

section \<open>Failures of the status write\<close>




section \<open>Cleanup and queue disposition\<close>

lemma cleanup_tail:
  assumes "\<forall>s\<in>set pre. \<not> is_disposition s \<and> s \<noteq> FileDelete" and "is_disposition d"
  shows "cleanup_before_disposition (pre @ [FileDelete, FileDelete, FileDelete, d])"
proof -
  have p: "\<And>s. s \<in> set pre \<Longrightarrow> \<not> is_disposition s" using assms(1) by blast
  have nd: "\<not> is_disposition FileDelete" by (simp add: is_disposition_def)
  have c0: "count_list pre FileDelete = 0" using assms(1) by (simp add: count_list_0_iff) blast
  have tw: "takeWhile (\<lambda>s. \<not> is_disposition s) (pre @ [FileDelete, FileDelete, FileDelete, d]) =
        pre @ [FileDelete, FileDelete, FileDelete]"
    using p assms(2) by (simp add: takeWhile_append2 nd)
  have dw: "dropWhile (\<lambda>s. \<not> is_disposition s) (pre @ [FileDelete, FileDelete, FileDelete, d]) = [d]"
    using p assms(2) by (simp add: dropWhile_append2 nd)
  have nf: "d \<noteq> FileDelete" using assms(2) by (auto simp: is_disposition_def)
  show ?thesis
    unfolding cleanup_before_disposition_def tw dw using c0 nf by simp
qed

lemma quiet_pre:
  assumes "quiet evs"
  shows "\<forall>s\<in>set (map step_of evs). \<not> is_disposition s \<and> s \<noteq> FileDelete"
  using assms by (auto simp: quiet_def is_disposition_def)

lemma rejected_cleanup:
  assumes "processChain E m w = (Rejected err, m', w')"
  shows "cleanup_before_disposition (steps w (processJob E m w)) \<and>
         is_disposition (last (steps w (processJob E m w)))"
proof -
  from chain_rejected [OF assms] obtain evs where
    tr: "trace w' = trace w @ evs" and q: "quiet evs"
    by (auto simp: inert_def)
  have pj: "processJob E m w = handleFailure E err m' w'"
    using assms by (rule processJob_rejected)
  note qp = quiet_pre [OF q]
  consider (c) "message err = ''CANCELED''" | (s) "message err = ''SLICER''"
    | (o) "message err \<noteq> ''CANCELED''" "message err \<noteq> ''SLICER''" by blast
  then show ?thesis
  proof cases
    case c
    note h = handleFailure_canceled [OF c, of E m' w', folded pj]
    have st: "steps w (processJob E m w) =
        (map step_of evs @ [StatsHour]) @ [FileDelete, FileDelete, FileDelete, QueueRemove]"
      using h tr by (simp add: steps_def new_events_def objectIdFromTimeStamp_def)
    show ?thesis unfolding st
      using qp by (intro conjI cleanup_tail) (auto simp: is_disposition_def)
  next
    case s
    note h = handleFailure_slicer [OF s, of E m' w', folded pj]
    have st: "steps w (processJob E m w) =
        (map step_of evs @ [StatsHour, StateWrite STATE_FAIL]) @
          [FileDelete, FileDelete, FileDelete, QueueRemove]"
      using h tr by (simp add: steps_def new_events_def objectIdFromTimeStamp_def)
    show ?thesis unfolding st
      using qp by (intro conjI cleanup_tail) (auto simp: is_disposition_def)
  next
    case o
    note h = handleFailure_other [OF o, of E m' w', folded pj]
    have st: "steps w (processJob E m w) =
        (map step_of evs @ [StateWrite STATE_ERR]) @
          [FileDelete, FileDelete, FileDelete, QueueRequeue]"
      using h tr by (simp add: steps_def new_events_def)
    show ?thesis unfolding st
      using qp by (intro conjI cleanup_tail) (auto simp: is_disposition_def)
  qed
qed

lemma resolved_steps:
  assumes "fst (processChain E m w) = Resolved"
  shows "steps w (processJob E m w) =
           [StateWrite STATE_PRE, Download, Download, StateWrite STATE_RUN, Slice,
            StateWrite STATE_POST, Upload, StateWrite STATE_DONE, QueueRemove,
            FileDelete, FileDelete, FileDelete, StatsHour, StatsLifetime]"
proof -
  from assms have "all_succeed E m" by (simp add: chain_resolved_iff)
  from chain_all_succeed [OF this, of w] obtain m' w' evs where
    c: "processChain E m w = (Resolved, m', w')"
    and tr: "trace w' = trace w @ evs"
    and ev: "map step_of evs =
             [StateWrite STATE_PRE, Download, Download, StateWrite STATE_RUN, Slice,
              StateWrite STATE_POST, Upload, StateWrite STATE_DONE, QueueRemove,
              FileDelete, FileDelete, FileDelete, StatsHour, StatsLifetime]"
    by auto
  have pj: "processJob E m w = w'"
    using c by (rule processJob_resolved)
  show ?thesis
    using tr ev by (simp add: pj steps_def new_events_def)
qed

text \<open>
  Claim C7 says that in every outcome the deletion of the three local files completes before
  the queue disposition is applied.  In the successful run it does not even start before:
  \<open>notifyDone\<close> removes the queue message, and \<open>cleanFiles\<close> comes after it in the chain.
\<close>

theorem success_removes_before_cleanup_counterexample:
  "fst (processChain sample_env sample_message sample_world) = Resolved \<and>
   \<not> cleanup_before_disposition (steps sample_world (processJob sample_env sample_message sample_world))"
proof -
  have r: "fst (processChain sample_env sample_message sample_world) = Resolved"
    by (simp add: chain_resolved_iff sample_all_succeed)
  show ?thesis
    by (simp add: r resolved_steps [OF r] cleanup_before_disposition_def is_disposition_def)
qed

text \<open>
  Claim C7, as the code has it.  When the chain is rejected (canceled, slicer failure or any
  other error) the three file deletions are issued before the queue disposition, which is
  the last call of the run; the deletions are started and not waited for.
\<close>

theorem cleanup_started_before_disposition_on_failure:
  assumes "fst (processChain E m w) \<noteq> Resolved"
  shows "cleanup_before_disposition (steps w (processJob E m w)) \<and>
         is_disposition (last (steps w (processJob E m w)))"
proof -
  from assms obtain err m' w' where "processChain E m w = (Rejected err, m', w')"
    by (cases "processChain E m w"; cases "fst (processChain E m w)") auto
  then show ?thesis by (rule rejected_cleanup)
qed

theorem cleanup_started_witness:
  "fst (processChain upload_fails_env sample_message sample_world) \<noteq> Resolved \<and>
   cleanup_before_disposition
     (steps sample_world (processJob upload_fails_env sample_message sample_world)) \<and>
   fst (processChain canceled_env sample_message sample_world) \<noteq> Resolved \<and>
   cleanup_before_disposition
     (steps sample_world (processJob canceled_env sample_message sample_world))"
proof -
  have a: "fst (processChain upload_fails_env sample_message sample_world) \<noteq> Resolved"
    by (simp add: chain_resolved_iff all_succeed_def upload_fails_env_def sample_env_def)
  have b: "fst (processChain canceled_env sample_message sample_world) \<noteq> Resolved"
    by (simp add: chain_resolved_iff all_succeed_def slicer_succeeded_def write_resolves_def
          canceled_env_def sample_env_def)
  from cleanup_started_before_disposition_on_failure [OF a]
    cleanup_started_before_disposition_on_failure [OF b] a b
  show ?thesis by simp
qed

section \<open>Slicing seconds\<close>

lemma handleFailure_total:
  "totalSlicingTime (handleFailure E err m w) = totalSlicingTime w"
proof -
  consider (c) "message err = ''CANCELED''" | (s) "message err = ''SLICER''"
    | (o) "message err \<noteq> ''CANCELED''" "message err \<noteq> ''SLICER''" by blast
  then show ?thesis
  proof cases
    case c then show ?thesis using handleFailure_canceled [of err E m w] by simp
  next
    case s then show ?thesis using handleFailure_slicer [of err E m w] by simp
  next
    case o then show ?thesis using handleFailure_other [of err E m w] by simp
  qed
qed

lemma processJob_total:
  "totalSlicingTime (processJob E m w) =
     totalSlicingTime w +
       (if slicer_succeeded E m
        then real_of_int (clock_slicing_end E - clock_slicing_start E) / 1000 else 0)"
proof -
  obtain r m' w' where c: "processChain E m w = (r, m', w')"
    by (cases "processChain E m w") auto
  have "totalSlicingTime (processJob E m w) = totalSlicingTime w'"
    by (cases r) (simp_all add: processJob_def c handleFailure_total)
  with chain_total [of E m w] show ?thesis by (simp add: c)
qed

lemma quiet_no_seconds:
  assumes "quiet evs"
  shows "\<not> list_ex persists_seconds evs"
proof -
  have "persists_seconds e \<Longrightarrow> step_of e \<in> {StatsHour, StatsLifetime}" for e
    by (cases e) (auto split: stats_id.splits)
  with assms show ?thesis by (auto simp: quiet_def list_ex_iff)
qed

lemma rejected_no_seconds:
  assumes "processChain E m w = (Rejected err, m', w')"
  shows "\<not> list_ex persists_seconds (new_events w (processJob E m w))"
proof -
  from chain_rejected [OF assms] obtain evs where
    tr: "trace w' = trace w @ evs" and q: "quiet evs"
    by (auto simp: inert_def)
  have pj: "processJob E m w = handleFailure E err m' w'"
    using assms by (rule processJob_rejected)
  note qn = quiet_no_seconds [OF q]
  consider (c) "message err = ''CANCELED''" | (s) "message err = ''SLICER''"
    | (o) "message err \<noteq> ''CANCELED''" "message err \<noteq> ''SLICER''" by blast
  then show ?thesis
  proof cases
    case c
    note h = handleFailure_canceled [OF c, of E m' w', folded pj]
    show ?thesis using h tr qn by (simp add: new_events_def)
  next
    case s
    note h = handleFailure_slicer [OF s, of E m' w', folded pj]
    show ?thesis using h tr qn by (simp add: new_events_def)
  next
    case o
    note h = handleFailure_other [OF o, of E m' w', folded pj]
    show ?thesis using h tr qn by (simp add: new_events_def)
  qed
qed


lemma chain_all_succeed_seconds:
  assumes "all_succeed E m"
  shows "\<exists>m' w' evs. processChain E m w = (Resolved, m', w') \<and> trace w' = trace w @ evs \<and>
           filter persists_seconds evs =
             [StatsUpdate (objectIdFromTimeStamp E) (success_incs E),
              StatsUpdate objectIdTimeZero (success_incs E)]"
  using assms
  unfolding processChain_def andThen_def downloadFiles_def spawnSlicer_def uploadFile_def notifyDone_def
    cleanFiles_eq recordSuccess_def all_succeed_def slicer_succeeded_def downloads_succeed_def slicer_command_def
  by (simp add: updateState_resolves state_text_known Let_def promise_join_def success_incs_def
        slicing_seconds_def)

lemma resolved_seconds:
  assumes "all_succeed E m"
  shows "seconds_writes w (processJob E m w) =
           [StatsUpdate (objectIdFromTimeStamp E) (success_incs E),
            StatsUpdate objectIdTimeZero (success_incs E)]"
proof -
  from chain_all_succeed_seconds [OF assms, of w] obtain m' w' evs where
    c: "processChain E m w = (Resolved, m', w')" and tr: "trace w' = trace w @ evs"
    and f: "filter persists_seconds evs =
             [StatsUpdate (objectIdFromTimeStamp E) (success_incs E),
              StatsUpdate objectIdTimeZero (success_incs E)]"
    by auto
  have pj: "processJob E m w = w'"
    using c by (rule processJob_resolved)
  show ?thesis using tr f by (simp add: pj seconds_writes_def new_events_def)
qed

text \<open>
  Claim C10 says that a job that fails at any stage contributes no slicing seconds.  A job
  whose upload fails after a slicer run of five seconds is counted as failed and requeued,
  and the in-memory total has grown by five.
\<close>

theorem upload_failure_keeps_seconds_counterexample:
  "fst (processChain upload_fails_env sample_message sample_world) \<noteq> Resolved \<and>
   jobsSucceeded (processJob upload_fails_env sample_message sample_world) = 0 \<and>
   jobsFailed (processJob upload_fails_env sample_message sample_world) = 1 \<and>
   totalSlicingTime sample_world = 0 \<and>
   totalSlicingTime (processJob upload_fails_env sample_message sample_world) = 5"
proof -
  have s: "slicer_succeeded upload_fails_env sample_message"
    by (simp add: slicer_succeeded_def downloads_succeed_def write_resolves_def
          upload_fails_env_def sample_env_def)
  have a: "\<not> all_succeed upload_fails_env sample_message"
    by (simp add: all_succeed_def upload_fails_env_def sample_env_def)
  obtain m' w' where c: "processChain upload_fails_env sample_message sample_world =
      (Rejected (JsError ''NetworkingError''), m', w')"
    by (simp add: stage_defs upload_fails_env_def sample_env_def)
  from chain_rejected [OF c] have
    cnt: "jobsSucceeded w' = 0" "jobsFailed w' = 0"
    by (auto simp: inert_def sample_world_simps)
  have pj: "processJob upload_fails_env sample_message sample_world =
      handleFailure upload_fails_env (JsError ''NetworkingError'') m' w'"
    using c by (rule processJob_rejected)
  have t: "totalSlicingTime (processJob upload_fails_env sample_message sample_world) = 5"
    using s by (simp add: processJob_total sample_world_simps upload_fails_env_def sample_env_def)
  show ?thesis
    using handleFailure_other [of "JsError ''NetworkingError''" upload_fails_env m' w'] cnt a
    by (simp add: pj [symmetric] t chain_resolved_iff sample_world_simps)
qed

text \<open>
  Claim C10, as the code has it.  The in-memory \<open>totalSlicingTime\<close> grows by the time the
  slicer took exactly when the job got as far as the slicer and the slicer exited normally,
  whatever happens to the job afterwards; otherwise it does not change.  Stats writes that
  increment \<open>slicing_seconds\<close> are issued only when every stage of the job went through:
  then there are two, for the hourly and for the lifetime document, each with the time the
  slicer took.
\<close>

theorem slicing_seconds_accumulate:
  "totalSlicingTime (processJob E m w) =
     totalSlicingTime w + (if slicer_succeeded E m then slicing_seconds E else 0)
   \<and> seconds_writes w (processJob E m w) =
       (if all_succeed E m
        then [StatsUpdate (objectIdFromTimeStamp E) (success_incs E),
              StatsUpdate objectIdTimeZero (success_incs E)]
        else [])"
proof -
  have "seconds_writes w (processJob E m w) = []" if "\<not> all_succeed E m"
  proof -
    from that have "fst (processChain E m w) \<noteq> Resolved" by (simp add: chain_resolved_iff)
    then obtain err m' w' where "processChain E m w = (Rejected err, m', w')"
      by (cases "processChain E m w"; cases "fst (processChain E m w)") auto
    from rejected_no_seconds [OF this] show ?thesis
      by (simp add: seconds_writes_def list_ex_iff filter_empty_conv)
  qed
  then show ?thesis
    by (simp add: processJob_total slicing_seconds_def resolved_seconds)
qed

theorem slicing_seconds_witness:
  "slicer_succeeded upload_fails_env sample_message \<and> \<not> all_succeed upload_fails_env sample_message \<and>
   totalSlicingTime (processJob upload_fails_env sample_message sample_world) = 5 \<and>
   seconds_writes sample_world (processJob upload_fails_env sample_message sample_world) = [] \<and>
   \<not> slicer_succeeded slicer_fails_env sample_message \<and>
   totalSlicingTime (processJob slicer_fails_env sample_message sample_world) = 0"
proof -
  have s: "slicer_succeeded upload_fails_env sample_message"
    by (simp add: slicer_succeeded_def downloads_succeed_def write_resolves_def
          upload_fails_env_def sample_env_def)
  have a: "\<not> all_succeed upload_fails_env sample_message"
    by (simp add: all_succeed_def upload_fails_env_def sample_env_def)
  have n: "\<not> slicer_succeeded slicer_fails_env sample_message"
    by (simp add: slicer_succeeded_def slicer_fails_env_def sample_env_def)
  have k: "slicing_seconds upload_fails_env = 5"
    by (simp add: slicing_seconds_def upload_fails_env_def sample_env_def)
  from slicing_seconds_accumulate [of upload_fails_env sample_message sample_world]
    slicing_seconds_accumulate [of slicer_fails_env sample_message sample_world] s a n k
  show ?thesis by (simp add: sample_world_simps)
qed

section \<open>Incomplete requests\<close>

lemmas message_defs = processMessage_def parseUrls_def parseUrl_def initial_message_def
  isEmpty_message_def has_field_def field_def mustHave_def time_fields_def sample_pieces_def
  rejectRequest_def track_def processJob_def handleFailure_def local_files_def removeFiles_three

text \<open>
  Claim C6 says that a message lacking any of the six required fields causes no download and
  no upload, gets an \<open>STATE_ERR\<close> status that names the missing parameter, and is removed
  from the queue.  \<open>processMessage\<close> assigns \<open>msg.job_oid\<close> before it looks for the
  required fields, so a message without \<open>job_oid\<close> passes the check.  Evaluated on such a
  message: no \<open>STATE_ERR\<close> status is written; the message is tracked and the chain
  runs.  When the status write matches no document, the job ends as canceled; when the
  document store cannot be reached, the downloads, the slicer and the upload all run.
\<close>

theorem missing_job_oid_not_detected:
  "map_of raw_without_job_oid ''job_oid'' = None \<and>
   steps sample_world (snd (processMessage canceled_env raw_without_job_oid sample_world)) =
     [QueueTrack, InFlight, StateWrite STATE_PRE, StatsHour,
      FileDelete, FileDelete, FileDelete, QueueRemove] \<and>
   steps sample_world (snd (processMessage db_down_env raw_without_job_oid sample_world)) =
     [QueueTrack, InFlight, StateWrite STATE_PRE, Download, Download, StateWrite STATE_RUN, Slice,
      StateWrite STATE_POST, Upload, StateWrite STATE_DONE, QueueRemove,
      FileDelete, FileDelete, FileDelete, StatsHour, StatsLifetime]"
  by (simp add: message_defs stage_defs raw_without_job_oid_def canceled_env_def db_down_env_def
        sample_env_def steps_def new_events_def sample_world_simps objectIdFromTimeStamp_def
        objectIdTimeZero_def)

text \<open>
  What the check does for the five fields it does detect.  A message that lacks one of them
  gets a write of the \<open>STATE_ERR\<close> status and, unless that write is rejected, the removal
  of the queue message; nothing else is issued: the message is not tracked, nothing is
  downloaded or uploaded, and the message is not requeued.
\<close>

lemma rejectRequest_steps:
  "steps w (rejectRequest E m text w) =
     (if write_resolves E STATE_ERR then [StateWrite STATE_ERR, QueueRemove]
      else [StateWrite STATE_ERR])"
  by (auto simp: rejectRequest_def updateState_outcome state_text_known write_resolves_def
        update_catch_def steps_def new_events_def split: db_outcome.splits)

lemma missing_field_rejected:
  assumes "object_id E (case map_of raw ''job_oid'' of None \<Rightarrow> JUndefined | Some v \<Rightarrow> v) = Inr oid"
    and "k \<in> set mustHave" and "k \<noteq> ''job_oid''" and "map_of raw k = None"
  shows "fst (processMessage E raw w) = Returned \<and>
         steps w (snd (processMessage E raw w)) =
           (if write_resolves E STATE_ERR then [StateWrite STATE_ERR, QueueRemove]
            else [StateWrite STATE_ERR])"
proof -
  let ?m = "initial_message raw oid"
  have "\<not> has_field ?m k"
    using assms(2,3,4)
    by (auto simp: has_field_def initial_message_def update_conv' mustHave_def time_fields_def)
  with assms(2) have "find (\<lambda>k. \<not> has_field ?m k) mustHave \<noteq> None"
    by (auto simp: find_None_iff)
  then obtain k' where "find (\<lambda>k. \<not> has_field ?m k) mustHave = Some k'" by auto
  with assms(1) show ?thesis
    by (simp add: processMessage_def Let_def rejectRequest_steps)
qed

text \<open>
  The text that names the missing parameter is handed to \<open>updateState\<close> as a string, whose
  \<open>message\<close> property is \<open>undefined\<close>: the detail written is \<open>Error; undefined\<close>.
  And when that write is rejected because it matches no document, the queue message is not
  removed.
\<close>

lemma rejectRequest_detail:
  "\<exists>evs. trace (rejectRequest E m text w) =
           trace w @ PrintJobUpdate (field m ''job_oid'')
                       (status_op m STATE_ERR ''Error'' ''Error; undefined'') # evs"
  by (auto simp: rejectRequest_def updateState_outcome state_text_known update_catch_def
        split: db_outcome.splits)

lemma missing_stl_file_detail:
  "trace (snd (processMessage sample_env raw_without_stl_file sample_world)) =
     [PrintJobUpdate (JOid ''5a0000000000000000000001'')
        \<lparr>status = STATE_ERR, jobID = JStr ''SN-7'', progress = ''Error'',
         progressDetail = ''Error; undefined'',
         downloadTime = zero_timing, uploadTime = zero_timing, slicingTime = zero_timing,
         gcode_file = JStr ''waiting''\<rparr>,
      RemoveMessage (JStr ''h1'')]"
proof -
  have "STATE_ERR \<noteq> STATE_DONE" by (simp add: state_defs)
  then show ?thesis
    by (simp add: message_defs stage_defs raw_without_stl_file_def sample_env_def sample_world_simps
          status_op_def)
qed

lemma missing_stl_file_not_removed:
  "steps sample_world (snd (processMessage canceled_env raw_without_stl_file sample_world)) =
     [StateWrite STATE_ERR]"
  by (simp add: message_defs stage_defs raw_without_stl_file_def canceled_env_def sample_env_def
        steps_def new_events_def sample_world_simps)

section \<open>Stats documents\<close>

text \<open>
  Claim C8 says that every disposition increments its field in two stats documents, the
  hourly and the lifetime one.  Evaluated on a job whose slicer fails and on a job that is
  canceled: one stats write is issued, to the hourly document, and none to the lifetime
  document, which only the successful run writes.
\<close>

theorem failures_skip_lifetime_stats:
  "steps sample_world (processJob slicer_fails_env sample_message sample_world) =
     [StateWrite STATE_PRE, Download, Download, StateWrite STATE_RUN, Slice,
      StatsHour, StateWrite STATE_FAIL, FileDelete, FileDelete, FileDelete, QueueRemove] \<and>
   StatsLifetime \<notin> set (steps sample_world (processJob slicer_fails_env sample_message sample_world)) \<and>
   steps sample_world (processJob canceled_env sample_message sample_world) =
     [StateWrite STATE_PRE, StatsHour, FileDelete, FileDelete, FileDelete, QueueRemove] \<and>
   StatsLifetime \<notin> set (steps sample_world (processJob canceled_env sample_message sample_world))"
  by (simp add: processJob_def handleFailure_def local_files_def removeFiles_three stage_defs
        slicer_fails_env_def canceled_env_def sample_env_def steps_def new_events_def
        sample_world_simps objectIdFromTimeStamp_def)

section \<open>Removing files\<close>

text \<open>
  Claim C9 says that \<open>removeFiles\<close> resolves for a single file name as for a list, also when
  the file is absent.  Evaluated on the name of a file that does not exist: given as a
  string, the rejection of \<open>unlink\<close> reaches the caller; given as a list of one, it is
  dropped.
\<close>

theorem removeFiles_string_rejects:
  "fst (removeFiles missing_file_env (JStr ''SN-7'') (JStr ''/w/gone.stl'') sample_world) =
     Rejected (JsError ''ENOENT: no such file or directory'') \<and>
   fst (removeFiles missing_file_env (JStr ''SN-7'') (JArr [JStr ''/w/gone.stl'']) sample_world) =
     Resolved"
  by (simp add: removeFiles_def unlink_def missing_file_env_def sample_env_def)

text \<open>The branches of \<open>removeFiles\<close>, for every input.\<close>

lemma removeFiles_array_resolves: "fst (removeFiles E logid (JArr fs) w) = Resolved"
  by (auto simp: removeFiles_def unlink_def split: prod.splits)

lemma removeFiles_falsy_resolves: "falsy files \<Longrightarrow> removeFiles E logid files w = (Resolved, w)"
  by (simp add: removeFiles_def)

lemma removeFiles_string:
  "s \<noteq> [] \<Longrightarrow> fst (removeFiles E logid (JStr s) w) =
     (case fs_unlink E (JStr s) of None \<Rightarrow> Resolved | Some e \<Rightarrow> Rejected e)"
  by (simp add: removeFiles_def unlink_def)

end
